theory Spec2Isabelle
  imports Complex_Main
begin

section \<open>Multi-round inference: the round controller of the tutorial notebook\<close>

text \<open>
  The notebook \<^verbatim>\<open>tutorials/03_multiround_inference.ipynb\<close> defines one function,
  \<^verbatim>\<open>linear_gaussian\<close>, and one loop, the round controller:
  \<^verbatim>\<open>
  posteriors = []
  proposal = prior

  for _ in range(num_rounds):
      theta, x = simulate_for_sbi(simulator, proposal, num_simulations=500)
      density_estimator = inference.append_simulations(
          theta, x, proposal=proposal
      ).train()
      posterior = inference.build_posterior(density_estimator)
      posteriors.append(posterior)
      proposal = posterior.set_default_x(x_o)
  \<close>
  The loop stands twice in the notebook, in the cell under ``Main syntax'' and in the
  linear-Gaussian example, with the same text. Everything else it calls lives in the
  \<^verbatim>\<open>sbi\<close> package and in \<^verbatim>\<open>torch\<close>, whose code is not part of the notebook. Those
  calls are parameters of the model below.
\<close>

subsection \<open>Exceptions\<close>

text \<open>A Python exception, with its message. A call that may raise returns \<open>exn + 'a\<close>.\<close>

datatype exn = Exception string

subsection \<open>The linear-Gaussian simulator\<close>

text \<open>
  \<^verbatim>\<open>
  def linear_gaussian(theta):
      return theta + 1.0 + torch.randn_like(theta) * 0.1
  \<close>
  A tensor is the list of its entries: all three operations of the body act entry by
  entry, so the shape plays no role. Python reads the body as
  \<open>(theta + 1.0) + (randn_like(theta) * 0.1)\<close>.

  The entries have the tensor's dtype, \<^verbatim>\<open>float32\<close> in the notebook. The sum and the
  product of two entries, with their rounding, overflow and NaN, and the entry a Python
  number is converted to before it meets a tensor, are torch's: they are parameters,
  with no law assumed of them.
\<close>

record 'a dtype =
  add :: "'a \<Rightarrow> 'a \<Rightarrow> 'a"
  mul :: "'a \<Rightarrow> 'a \<Rightarrow> 'a"
  scalar :: "real \<Rightarrow> 'a"

text \<open>\<open>t + c\<close> and \<open>t * c\<close> for a tensor \<open>t\<close> and a Python number \<open>c\<close>.\<close>

definition add_scalar :: "'a dtype \<Rightarrow> 'a list \<Rightarrow> real \<Rightarrow> 'a list" where
  "add_scalar D t c = map (\<lambda>a. add D a (scalar D c)) t"

definition mul_scalar :: "'a dtype \<Rightarrow> 'a list \<Rightarrow> real \<Rightarrow> 'a list" where
  "mul_scalar D t c = map (\<lambda>a. mul D a (scalar D c)) t"

text \<open>
  The sum of two tensors of one shape. \<^verbatim>\<open>randn_like(theta)\<close> has the shape of
  \<open>theta\<close>, so the body never adds tensors of different shapes.
\<close>

definition add_tensor :: "'a dtype \<Rightarrow> 'a list \<Rightarrow> 'a list \<Rightarrow> 'a list" where
  "add_tensor D s t = map2 (add D) s t"

text \<open>
  \<^verbatim>\<open>torch.randn_like\<close> draws from torch's global generator: it is a parameter that takes
  the generator's state and returns the noise with the new state.
\<close>

definition linear_gaussian ::
  "'a dtype \<Rightarrow> ('a list \<Rightarrow> 'g \<Rightarrow> 'a list \<times> 'g) \<Rightarrow> 'a list \<Rightarrow> 'g \<Rightarrow> 'a list \<times> 'g" where
  "linear_gaussian D randn_like theta g =
     (case randn_like theta g of
        (eps, g') \<Rightarrow> (add_tensor D (add_scalar D theta 1.0) (mul_scalar D eps 0.1), g'))"

text \<open>
  A dtype to compute with: decimal numbers with one digit after the point, held as a
  count of tenths, products rounded down. Its product is commutative and not
  associative, and it does not hold \<open>0.1 * 0.1\<close>.
\<close>

definition tenths :: "int dtype" where
  "tenths = \<lparr>add = (\<lambda>a b. a + b), mul = (\<lambda>a b. (a * b) div 10), scalar = (\<lambda>c. \<lfloor>c * 10\<rfloor>)\<rparr>"

subsection \<open>The inference object\<close>

text \<open>
  Modelled from the spec: the class \<^verbatim>\<open>SNPE\<close> of \<^verbatim>\<open>sbi.inference\<close> and its method
  \<^verbatim>\<open>append_simulations\<close> are not in the notebook. The spec describes the trainer as
  \<^verbatim>\<open>add_data(parameters, observations, proposal_tag) -> self\<close> and the data it holds as
  round records, ``(parameter batch, observation batch, proposal reference), accumulated
  across rounds, not discarded''; the controller ``appends (parameters, observations,
  proposal-tag) to the accumulated dataset''. So the inference object holds the prior it
  was created with and the list of round records, oldest first, and
  \<open>append_simulations\<close> adds one record at the end and returns the object. The spec
  names no failure of it: it always returns.
\<close>

record ('d, 'p, 'o) snpe =
  snpe_prior :: 'd
  rounds :: "('p list \<times> 'o list \<times> 'd) list"

definition SNPE :: "'d \<Rightarrow> ('d, 'p, 'o) snpe" where
  "SNPE prior = \<lparr>snpe_prior = prior, rounds = []\<rparr>"

definition append_simulations ::
  "('d, 'p, 'o) snpe \<Rightarrow> 'p list \<Rightarrow> 'o list \<Rightarrow> 'd \<Rightarrow> ('d, 'p, 'o) snpe" where
  "append_simulations self theta x tag = self\<lparr>rounds := rounds self @ [(theta, x, tag)]\<rparr>"

text \<open>The size of the accumulated dataset: the number of parameter samples it holds.\<close>

definition dataset_size :: "('d, 'p, 'o) snpe \<Rightarrow> nat" where
  "dataset_size self = sum_list (map (\<lambda>(theta, x, tag). length theta) (rounds self))"

subsection \<open>The calls into the library\<close>

text \<open>
  The four other library calls of the loop are opaque. Each may raise, may read and
  change state the notebook does not see (torch's random generator, the network's
  weights, the objects behind the references it holds): the world \<open>'w\<close>. A call takes
  the world and returns its result, or the exception it raised, with the new world.

  \<open>'sim\<close> is the simulator, \<open>'d\<close> a distribution (the prior, a posterior), \<open>'p\<close> a
  parameter sample, \<open>'o\<close> an observation, \<open>'e\<close> a trained density estimator.
\<close>

record ('sim, 'd, 'p, 'o, 'e, 'w) sbi =
  simulate_for_sbi :: "'sim \<Rightarrow> 'd \<Rightarrow> int \<Rightarrow> 'w \<Rightarrow> (exn + 'p list \<times> 'o list) \<times> 'w"
  train :: "('d, 'p, 'o) snpe \<Rightarrow> 'w \<Rightarrow> (exn + 'e) \<times> 'w"
  build_posterior :: "('d, 'p, 'o) snpe \<Rightarrow> 'e \<Rightarrow> 'w \<Rightarrow> (exn + 'd) \<times> 'w"
  set_default_x :: "'d \<Rightarrow> 'o \<Rightarrow> 'w \<Rightarrow> (exn + 'd) \<times> 'w"

text \<open>
  One entry of the call history: the call, its arguments, the world it ran in and what
  it returned. \<open>Train\<close> and \<open>BuildPosterior\<close> are methods of the inference object, which
  is their first argument.
\<close>

datatype ('sim, 'd, 'p, 'o, 'e, 'w) call =
    Simulate 'sim 'd int 'w "(exn + 'p list \<times> 'o list) \<times> 'w"
  | AppendSimulations "'p list" "'o list" 'd
  | Train "('d, 'p, 'o) snpe" 'w "(exn + 'e) \<times> 'w"
  | BuildPosterior "('d, 'p, 'o) snpe" 'e 'w "(exn + 'd) \<times> 'w"
  | SetDefaultX 'd 'o 'w "(exn + 'd) \<times> 'w"

subsection \<open>The notebook's state\<close>

text \<open>
  The variables the loop reads and writes across rounds, and the world. \<open>calls\<close> is not
  a variable of the notebook: it is the history of the library calls made so far, kept
  so that a theorem can say which arguments a call received. Nothing reads it.
  \<open>theta\<close>, \<open>x\<close>, \<open>density_estimator\<close> and \<open>posterior\<close> are assigned in every
  round before they are read; they are bound variables of \<open>round_body\<close>.
\<close>

record ('sim, 'd, 'p, 'o, 'e, 'w) notebook =
  inference :: "('d, 'p, 'o) snpe"
  posteriors :: "'d list"
  proposal :: 'd
  world :: 'w
  calls :: "('sim, 'd, 'p, 'o, 'e, 'w) call list"

definition call_simulate_for_sbi ::
  "('sim, 'd, 'p, 'o, 'e, 'w) sbi \<Rightarrow> 'sim \<Rightarrow> 'd \<Rightarrow> int \<Rightarrow> ('sim, 'd, 'p, 'o, 'e, 'w) notebook
     \<Rightarrow> (exn + 'p list \<times> 'o list) \<times> ('sim, 'd, 'p, 'o, 'e, 'w) notebook" where
  "call_simulate_for_sbi L simulator d n s =
     (case simulate_for_sbi L simulator d n (world s) of
        (r, w') \<Rightarrow>
          (r, s\<lparr>world := w', calls := calls s @ [Simulate simulator d n (world s) (r, w')]\<rparr>))"

definition call_append_simulations ::
  "'p list \<Rightarrow> 'o list \<Rightarrow> 'd \<Rightarrow> ('sim, 'd, 'p, 'o, 'e, 'w) notebook
     \<Rightarrow> ('sim, 'd, 'p, 'o, 'e, 'w) notebook" where
  "call_append_simulations theta x d s =
     s\<lparr>inference := append_simulations (inference s) theta x d,
       calls := calls s @ [AppendSimulations theta x d]\<rparr>"

definition call_train ::
  "('sim, 'd, 'p, 'o, 'e, 'w) sbi \<Rightarrow> ('sim, 'd, 'p, 'o, 'e, 'w) notebook
     \<Rightarrow> (exn + 'e) \<times> ('sim, 'd, 'p, 'o, 'e, 'w) notebook" where
  "call_train L s =
     (case train L (inference s) (world s) of
        (r, w') \<Rightarrow>
          (r, s\<lparr>world := w', calls := calls s @ [Train (inference s) (world s) (r, w')]\<rparr>))"

definition call_build_posterior ::
  "('sim, 'd, 'p, 'o, 'e, 'w) sbi \<Rightarrow> 'e \<Rightarrow> ('sim, 'd, 'p, 'o, 'e, 'w) notebook
     \<Rightarrow> (exn + 'd) \<times> ('sim, 'd, 'p, 'o, 'e, 'w) notebook" where
  "call_build_posterior L density_estimator s =
     (case build_posterior L (inference s) density_estimator (world s) of
        (r, w') \<Rightarrow>
          (r, s\<lparr>world := w',
                calls := calls s @
                  [BuildPosterior (inference s) density_estimator (world s) (r, w')]\<rparr>))"

definition call_set_default_x ::
  "('sim, 'd, 'p, 'o, 'e, 'w) sbi \<Rightarrow> 'd \<Rightarrow> 'o \<Rightarrow> ('sim, 'd, 'p, 'o, 'e, 'w) notebook
     \<Rightarrow> (exn + 'd) \<times> ('sim, 'd, 'p, 'o, 'e, 'w) notebook" where
  "call_set_default_x L posterior x_o s =
     (case set_default_x L posterior x_o (world s) of
        (r, w') \<Rightarrow>
          (r, s\<lparr>world := w', calls := calls s @ [SetDefaultX posterior x_o (world s) (r, w')]\<rparr>))"

subsection \<open>The round controller\<close>

text \<open>
  One pass through the body of the loop. The result is \<open>(None, s')\<close> when the round
  completed and \<open>(Some e, s')\<close> when a call raised \<open>e\<close>: nothing in the notebook
  catches it, so the rest of the body is skipped, and \<open>s'\<close> is the state the notebook
  is left in.
\<close>

definition round_body ::
  "('sim, 'd, 'p, 'o, 'e, 'w) sbi \<Rightarrow> 'sim \<Rightarrow> 'o \<Rightarrow> ('sim, 'd, 'p, 'o, 'e, 'w) notebook
     \<Rightarrow> exn option \<times> ('sim, 'd, 'p, 'o, 'e, 'w) notebook" where
  "round_body L simulator x_o s0 =
     (case call_simulate_for_sbi L simulator (proposal s0) 500 s0 of
        (Inl e, s1) \<Rightarrow> (Some e, s1)
      | (Inr (theta, x), s1) \<Rightarrow>
     (case call_train L (call_append_simulations theta x (proposal s1) s1) of
        (Inl e, s2) \<Rightarrow> (Some e, s2)
      | (Inr density_estimator, s2) \<Rightarrow>
     (case call_build_posterior L density_estimator s2 of
        (Inl e, s3) \<Rightarrow> (Some e, s3)
      | (Inr posterior, s3) \<Rightarrow>
     (case call_set_default_x L posterior x_o (s3\<lparr>posteriors := posteriors s3 @ [posterior]\<rparr>) of
        (Inl e, s4) \<Rightarrow> (Some e, s4)
      | (Inr d, s4) \<Rightarrow> (None, s4\<lparr>proposal := d\<rparr>)))))"

text \<open>
  \<^verbatim>\<open>for _ in range(num_rounds)\<close>: the body runs once per element of the range, and an
  exception ends the loop.
\<close>

fun round_loop ::
  "('sim, 'd, 'p, 'o, 'e, 'w) sbi \<Rightarrow> 'sim \<Rightarrow> 'o \<Rightarrow> nat \<Rightarrow> ('sim, 'd, 'p, 'o, 'e, 'w) notebook
     \<Rightarrow> exn option \<times> ('sim, 'd, 'p, 'o, 'e, 'w) notebook" where
  "round_loop L simulator x_o 0 s = (None, s)"
| "round_loop L simulator x_o (Suc n) s =
     (case round_body L simulator x_o s of
        (Some e, s') \<Rightarrow> (Some e, s')
      | (None, s') \<Rightarrow> round_loop L simulator x_o n s')"

text \<open>
  The state in which the loop is entered: the cell \<^verbatim>\<open>inference = SNPE(prior=prior)\<close>
  has run, then the first two lines of the cell with the loop,
  \<^verbatim>\<open>posteriors = []\<close> and \<^verbatim>\<open>proposal = prior\<close>. \<open>w\<close> is the world at that moment.
\<close>

definition start :: "'d \<Rightarrow> 'w \<Rightarrow> ('sim, 'd, 'p, 'o, 'e, 'w) notebook" where
  "start prior w =
     \<lparr>inference = SNPE prior, posteriors = [], proposal = prior, world = w, calls = []\<rparr>"

text \<open>
  The whole cell. \<open>num_rounds\<close> is a Python integer; \<open>range\<close> of a negative number is
  empty.
\<close>

definition multiround ::
  "('sim, 'd, 'p, 'o, 'e, 'w) sbi \<Rightarrow> 'sim \<Rightarrow> 'd \<Rightarrow> 'o \<Rightarrow> int \<Rightarrow> 'w
     \<Rightarrow> exn option \<times> ('sim, 'd, 'p, 'o, 'e, 'w) notebook" where
  "multiround L simulator prior x_o num_rounds w =
     round_loop L simulator x_o (nat num_rounds) (start prior w)"

subsection \<open>Single-round inference\<close>

text \<open>
  The notebook describes single-round inference in words: ``we draw parameters from the
  prior, simulate the corresponding data, and then train a neural network to obtain the
  posterior''; the spec calls it ``one proposal (the prior), one trained model''. With
  the calls of the loop, made once, on a fresh inference object:
  \<^verbatim>\<open>
  theta, x = simulate_for_sbi(simulator, prior, num_simulations=500)
  density_estimator = inference.append_simulations(theta, x, proposal=prior).train()
  posterior = inference.build_posterior(density_estimator)
  \<close>
  The result is the posterior, or the exception raised.
\<close>

definition single_round_inference ::
  "('sim, 'd, 'p, 'o, 'e, 'w) sbi \<Rightarrow> 'sim \<Rightarrow> 'd \<Rightarrow> 'w
     \<Rightarrow> (exn + 'd) \<times> ('sim, 'd, 'p, 'o, 'e, 'w) notebook" where
  "single_round_inference L simulator prior w =
     (case call_simulate_for_sbi L simulator prior 500 (start prior w) of
        (Inl e, s1) \<Rightarrow> (Inl e, s1)
      | (Inr (theta, x), s1) \<Rightarrow>
     (case call_train L (call_append_simulations theta x prior s1) of
        (Inl e, s2) \<Rightarrow> (Inl e, s2)
      | (Inr density_estimator, s2) \<Rightarrow> call_build_posterior L density_estimator s2))"

subsection \<open>Calls with several possible answers\<close>

text \<open>
  A library given as functions of the world answers a repeated call in the same way by
  construction. To ask whether two runs of the notebook agree, the calls are given here
  as sets: the answers the library may give to a call with these arguments in this
  world. A call that draws from something outside the world (a generator that was not
  seeded, the order of a parallel sum) has several answers; a call that never returns
  has none. The loop is the one above, statement by statement: \<open>then_nd\<close> runs what
  follows a call for each of its possible answers, and a run of the loop is any element
  of \<open>multiround_nd\<close>.
\<close>

record ('sim, 'd, 'p, 'o, 'e, 'w) sbi_nd =
  simulate_for_sbi_nd :: "'sim \<Rightarrow> 'd \<Rightarrow> int \<Rightarrow> 'w \<Rightarrow> ((exn + 'p list \<times> 'o list) \<times> 'w) set"
  train_nd :: "('d, 'p, 'o) snpe \<Rightarrow> 'w \<Rightarrow> ((exn + 'e) \<times> 'w) set"
  build_posterior_nd :: "('d, 'p, 'o) snpe \<Rightarrow> 'e \<Rightarrow> 'w \<Rightarrow> ((exn + 'd) \<times> 'w) set"
  set_default_x_nd :: "'d \<Rightarrow> 'o \<Rightarrow> 'w \<Rightarrow> ((exn + 'd) \<times> 'w) set"

definition then_nd :: "('a \<times> 's) set \<Rightarrow> ('a \<Rightarrow> 's \<Rightarrow> 'b set) \<Rightarrow> 'b set" where
  "then_nd A f = (\<Union>(a, s) \<in> A. f a s)"

definition call_simulate_for_sbi_nd ::
  "('sim, 'd, 'p, 'o, 'e, 'w) sbi_nd \<Rightarrow> 'sim \<Rightarrow> 'd \<Rightarrow> int \<Rightarrow> ('sim, 'd, 'p, 'o, 'e, 'w) notebook
     \<Rightarrow> ((exn + 'p list \<times> 'o list) \<times> ('sim, 'd, 'p, 'o, 'e, 'w) notebook) set" where
  "call_simulate_for_sbi_nd N simulator d n s =
     (\<lambda>(r, w'). (r, s\<lparr>world := w', calls := calls s @ [Simulate simulator d n (world s) (r, w')]\<rparr>))
       ` simulate_for_sbi_nd N simulator d n (world s)"

definition call_train_nd ::
  "('sim, 'd, 'p, 'o, 'e, 'w) sbi_nd \<Rightarrow> ('sim, 'd, 'p, 'o, 'e, 'w) notebook
     \<Rightarrow> ((exn + 'e) \<times> ('sim, 'd, 'p, 'o, 'e, 'w) notebook) set" where
  "call_train_nd N s =
     (\<lambda>(r, w'). (r, s\<lparr>world := w', calls := calls s @ [Train (inference s) (world s) (r, w')]\<rparr>))
       ` train_nd N (inference s) (world s)"

definition call_build_posterior_nd ::
  "('sim, 'd, 'p, 'o, 'e, 'w) sbi_nd \<Rightarrow> 'e \<Rightarrow> ('sim, 'd, 'p, 'o, 'e, 'w) notebook
     \<Rightarrow> ((exn + 'd) \<times> ('sim, 'd, 'p, 'o, 'e, 'w) notebook) set" where
  "call_build_posterior_nd N density_estimator s =
     (\<lambda>(r, w'). (r, s\<lparr>world := w',
         calls := calls s @ [BuildPosterior (inference s) density_estimator (world s) (r, w')]\<rparr>))
       ` build_posterior_nd N (inference s) density_estimator (world s)"

definition call_set_default_x_nd ::
  "('sim, 'd, 'p, 'o, 'e, 'w) sbi_nd \<Rightarrow> 'd \<Rightarrow> 'o \<Rightarrow> ('sim, 'd, 'p, 'o, 'e, 'w) notebook
     \<Rightarrow> ((exn + 'd) \<times> ('sim, 'd, 'p, 'o, 'e, 'w) notebook) set" where
  "call_set_default_x_nd N posterior x_o s =
     (\<lambda>(r, w'). (r, s\<lparr>world := w', calls := calls s @ [SetDefaultX posterior x_o (world s) (r, w')]\<rparr>))
       ` set_default_x_nd N posterior x_o (world s)"

definition round_body_nd ::
  "('sim, 'd, 'p, 'o, 'e, 'w) sbi_nd \<Rightarrow> 'sim \<Rightarrow> 'o \<Rightarrow> ('sim, 'd, 'p, 'o, 'e, 'w) notebook
     \<Rightarrow> (exn option \<times> ('sim, 'd, 'p, 'o, 'e, 'w) notebook) set" where
  "round_body_nd N simulator x_o s0 =
     then_nd (call_simulate_for_sbi_nd N simulator (proposal s0) 500 s0) (\<lambda>r1 s1.
       case r1 of
         Inl e \<Rightarrow> {(Some e, s1)}
       | Inr (theta, x) \<Rightarrow>
     then_nd (call_train_nd N (call_append_simulations theta x (proposal s1) s1)) (\<lambda>r2 s2.
       case r2 of
         Inl e \<Rightarrow> {(Some e, s2)}
       | Inr density_estimator \<Rightarrow>
     then_nd (call_build_posterior_nd N density_estimator s2) (\<lambda>r3 s3.
       case r3 of
         Inl e \<Rightarrow> {(Some e, s3)}
       | Inr posterior \<Rightarrow>
     then_nd (call_set_default_x_nd N posterior x_o (s3\<lparr>posteriors := posteriors s3 @ [posterior]\<rparr>))
       (\<lambda>r4 s4.
       case r4 of
         Inl e \<Rightarrow> {(Some e, s4)}
       | Inr d \<Rightarrow> {(None, s4\<lparr>proposal := d\<rparr>)}))))"

fun round_loop_nd ::
  "('sim, 'd, 'p, 'o, 'e, 'w) sbi_nd \<Rightarrow> 'sim \<Rightarrow> 'o \<Rightarrow> nat \<Rightarrow> ('sim, 'd, 'p, 'o, 'e, 'w) notebook
     \<Rightarrow> (exn option \<times> ('sim, 'd, 'p, 'o, 'e, 'w) notebook) set" where
  "round_loop_nd N simulator x_o 0 s = {(None, s)}"
| "round_loop_nd N simulator x_o (Suc n) s =
     then_nd (round_body_nd N simulator x_o s) (\<lambda>r s'.
       case r of
         Some e \<Rightarrow> {(Some e, s')}
       | None \<Rightarrow> round_loop_nd N simulator x_o n s')"

definition multiround_nd ::
  "('sim, 'd, 'p, 'o, 'e, 'w) sbi_nd \<Rightarrow> 'sim \<Rightarrow> 'd \<Rightarrow> 'o \<Rightarrow> int \<Rightarrow> 'w
     \<Rightarrow> (exn option \<times> ('sim, 'd, 'p, 'o, 'e, 'w) notebook) set" where
  "multiround_nd N simulator prior x_o num_rounds w =
     round_loop_nd N simulator x_o (nat num_rounds) (start prior w)"

text \<open>A library given as functions: every call has one answer.\<close>

definition nd_of :: "('sim, 'd, 'p, 'o, 'e, 'w) sbi \<Rightarrow> ('sim, 'd, 'p, 'o, 'e, 'w) sbi_nd" where
  "nd_of L =
     \<lparr>simulate_for_sbi_nd = (\<lambda>sim d n w. {simulate_for_sbi L sim d n w}),
      train_nd = (\<lambda>self w. {train L self w}),
      build_posterior_nd = (\<lambda>self density_estimator w. {build_posterior L self density_estimator w}),
      set_default_x_nd = (\<lambda>posterior x_o w. {set_default_x L posterior x_o w})\<rparr>"

text \<open>A set of possible results with no two different elements.\<close>

definition at_most_one :: "'a set \<Rightarrow> bool" where
  "at_most_one A = (\<forall>a \<in> A. \<forall>b \<in> A. a = b)"

subsection \<open>Reading the call history\<close>

text \<open>
  Each function below keeps the calls of one kind, in the order they were made. The
  body of the loop makes each call at most once, so the \<open>k\<close>-th entry of any of these
  lists belongs to round \<open>k\<close> (the lists count from position \<open>0\<close>, the rounds from 1).
\<close>

text \<open>The proposal every \<^verbatim>\<open>simulate_for_sbi\<close> call was given.\<close>

fun proposals_used :: "('sim, 'd, 'p, 'o, 'e, 'w) call list \<Rightarrow> 'd list" where
  "proposals_used [] = []"
| "proposals_used (Simulate sim d n w r # cs) = d # proposals_used cs"
| "proposals_used (c # cs) = proposals_used cs"

text \<open>The number of simulations every \<^verbatim>\<open>simulate_for_sbi\<close> call was asked for.\<close>

fun budgets :: "('sim, 'd, 'p, 'o, 'e, 'w) call list \<Rightarrow> int list" where
  "budgets [] = []"
| "budgets (Simulate sim d n w r # cs) = n # budgets cs"
| "budgets (c # cs) = budgets cs"

text \<open>
  The batches the \<^verbatim>\<open>simulate_for_sbi\<close> calls returned, each with the proposal it was
  drawn from.
\<close>

fun simulated :: "('sim, 'd, 'p, 'o, 'e, 'w) call list \<Rightarrow> ('p list \<times> 'o list \<times> 'd) list" where
  "simulated [] = []"
| "simulated (Simulate sim d n w (Inr (theta, x), w') # cs) = (theta, x, d) # simulated cs"
| "simulated (c # cs) = simulated cs"

text \<open>The batches passed to \<^verbatim>\<open>append_simulations\<close>, each with its proposal tag.\<close>

fun appended :: "('sim, 'd, 'p, 'o, 'e, 'w) call list \<Rightarrow> ('p list \<times> 'o list \<times> 'd) list" where
  "appended [] = []"
| "appended (AppendSimulations theta x d # cs) = (theta, x, d) # appended cs"
| "appended (c # cs) = appended cs"

text \<open>The inference object, with the dataset it held, of every \<^verbatim>\<open>train\<close> call.\<close>

fun trained_on :: "('sim, 'd, 'p, 'o, 'e, 'w) call list \<Rightarrow> ('d, 'p, 'o) snpe list" where
  "trained_on [] = []"
| "trained_on (Train self w r # cs) = self # trained_on cs"
| "trained_on (c # cs) = trained_on cs"

text \<open>The density estimators the \<^verbatim>\<open>train\<close> calls returned.\<close>

fun estimators :: "('sim, 'd, 'p, 'o, 'e, 'w) call list \<Rightarrow> 'e list" where
  "estimators [] = []"
| "estimators (Train self w (Inr density_estimator, w') # cs) = density_estimator # estimators cs"
| "estimators (c # cs) = estimators cs"

text \<open>
  The posteriors the \<^verbatim>\<open>build_posterior\<close> calls returned, each with the density
  estimator it was built from.
\<close>

fun built :: "('sim, 'd, 'p, 'o, 'e, 'w) call list \<Rightarrow> ('e \<times> 'd) list" where
  "built [] = []"
| "built (BuildPosterior self density_estimator w (Inr posterior, w') # cs) =
     (density_estimator, posterior) # built cs"
| "built (c # cs) = built cs"

text \<open>
  The \<^verbatim>\<open>set_default_x\<close> calls that returned: the posterior, the observation it was
  conditioned on, and the distribution returned.
\<close>

fun conditioned :: "('sim, 'd, 'p, 'o, 'e, 'w) call list \<Rightarrow> ('d \<times> 'o \<times> 'd) list" where
  "conditioned [] = []"
| "conditioned (SetDefaultX posterior x_o w (Inr d, w') # cs) = (posterior, x_o, d) # conditioned cs"
| "conditioned (c # cs) = conditioned cs"

text \<open>The exception a call raised, if it raised one.\<close>

fun raised :: "('sim, 'd, 'p, 'o, 'e, 'w) call \<Rightarrow> exn option" where
  "raised (Simulate sim d n w (Inl e, w')) = Some e"
| "raised (Train self w (Inl e, w')) = Some e"
| "raised (BuildPosterior self density_estimator w (Inl e, w')) = Some e"
| "raised (SetDefaultX posterior x_o w (Inl e, w')) = Some e"
| "raised c = None"

fun is_SetDefaultX :: "('sim, 'd, 'p, 'o, 'e, 'w) call \<Rightarrow> bool" where
  "is_SetDefaultX (SetDefaultX posterior x_o w r) = True"
| "is_SetDefaultX c = False"

subsection \<open>A small library to run the loop on\<close>

text \<open>
  An instance of the library on natural numbers, to evaluate the model on concrete runs.
  The world is a counter. A simulation returns a batch of two samples read off the
  counter. Training returns the size of the dataset it was given, and raises when the
  dataset holds three rounds. A posterior is ten times its estimator, and conditioning
  adds the observation.
\<close>

definition toy_sbi :: "(unit, nat, nat, nat, nat, nat) sbi" where
  "toy_sbi =
     \<lparr>simulate_for_sbi = (\<lambda>sim d n w. (Inr ([w, w + 1], [w + d, w + d + 1]), w + 1)),
      train = (\<lambda>self w.
        if length (rounds self) = 3 then (Inl (Exception ''diverged''), w)
        else (Inr (dataset_size self), w + 1)),
      build_posterior = (\<lambda>self density_estimator w. (Inr (10 * density_estimator), w)),
      set_default_x = (\<lambda>posterior x_o w. (Inr (posterior + x_o), w))\<rparr>"

text \<open>
  A third library: \<open>toy_sbi\<close>, except that the simulator may return the two samples of a
  batch in either order.
\<close>

definition toy_nd :: "(unit, nat, nat, nat, nat, nat) sbi_nd" where
  "toy_nd =
     (nd_of toy_sbi)\<lparr>simulate_for_sbi_nd := (\<lambda>sim d n w.
        {(Inr ([w, w + 1], [w + d, w + d + 1]), w + 1),
         (Inr ([w + 1, w], [w + d + 1, w + d]), w + 1)})\<rparr>"

section \<open>How the loop unfolds\<close>

lemma round_body_completes:
  assumes "round_body L sim x_o s = (None, s')"
  shows "\<exists>theta x w1 de w2 post w3 d w4.
     simulate_for_sbi L sim (proposal s) 500 (world s) = (Inr (theta, x), w1) \<and>
     train L (append_simulations (inference s) theta x (proposal s)) w1 = (Inr de, w2) \<and>
     build_posterior L (append_simulations (inference s) theta x (proposal s)) de w2 = (Inr post, w3) \<and>
     set_default_x L post x_o w3 = (Inr d, w4) \<and>
     s' = s\<lparr>inference := append_simulations (inference s) theta x (proposal s),
            posteriors := posteriors s @ [post],
            proposal := d,
            world := w4,
            calls := calls s @
       [Simulate sim (proposal s) 500 (world s) (Inr (theta, x), w1),
        AppendSimulations theta x (proposal s),
        Train (append_simulations (inference s) theta x (proposal s)) w1 (Inr de, w2),
        BuildPosterior (append_simulations (inference s) theta x (proposal s)) de w2 (Inr post, w3),
        SetDefaultX post x_o w3 (Inr d, w4)]\<rparr>"
  using assms
  unfolding round_body_def call_simulate_for_sbi_def call_append_simulations_def call_train_def
    call_build_posterior_def call_set_default_x_def
  by (auto split: prod.splits sum.splits)

lemma round_loop_snoc:
  "round_loop L sim x_o (Suc n) s =
     (case round_loop L sim x_o n s of
        (Some e, s') \<Rightarrow> (Some e, s')
      | (None, s') \<Rightarrow> round_body L sim x_o s')"
proof (induction n arbitrary: s)
  case 0
  show ?case by (simp split: prod.splits option.splits)
next
  case (Suc n)
  obtain r s1 where b: "round_body L sim x_o s = (r, s1)"
    by (cases "round_body L sim x_o s")
  show ?case
  proof (cases r)
    case None
    have "round_loop L sim x_o (Suc (Suc n)) s = round_loop L sim x_o (Suc n) s1"
      using b None by (simp del: round_loop.simps(2) add: round_loop.simps(2) [of _ _ _ "Suc n" s])
    also have "\<dots> = (case round_loop L sim x_o n s1 of
        (Some e, s') \<Rightarrow> (Some e, s')
      | (None, s') \<Rightarrow> round_body L sim x_o s')"
      by (rule Suc.IH)
    also have "round_loop L sim x_o n s1 = round_loop L sim x_o (Suc n) s"
      using b None by simp
    finally show ?thesis .
  next
    case (Some e)
    then show ?thesis using b by simp
  qed
qed

lemma round_loop_add:
  "round_loop L sim x_o (m + n) s =
     (case round_loop L sim x_o m s of
        (Some e, s') \<Rightarrow> (Some e, s')
      | (None, s') \<Rightarrow> round_loop L sim x_o n s')"
  by (induction m arbitrary: s) (auto split: prod.splits option.splits)


lemma proposals_used_append [simp]:
  "proposals_used (cs @ ds) = proposals_used cs @ proposals_used ds"
  by (induction cs rule: proposals_used.induct) simp_all

lemma budgets_append [simp]: "budgets (cs @ ds) = budgets cs @ budgets ds"
  by (induction cs rule: budgets.induct) simp_all

lemma simulated_append [simp]: "simulated (cs @ ds) = simulated cs @ simulated ds"
  by (induction cs rule: simulated.induct) simp_all

lemma appended_append [simp]: "appended (cs @ ds) = appended cs @ appended ds"
  by (induction cs rule: appended.induct) simp_all

lemma trained_on_append [simp]: "trained_on (cs @ ds) = trained_on cs @ trained_on ds"
  by (induction cs rule: trained_on.induct) simp_all

lemma estimators_append [simp]: "estimators (cs @ ds) = estimators cs @ estimators ds"
  by (induction cs rule: estimators.induct) simp_all

lemma built_append [simp]: "built (cs @ ds) = built cs @ built ds"
  by (induction cs rule: built.induct) simp_all

lemma conditioned_append [simp]: "conditioned (cs @ ds) = conditioned cs @ conditioned ds"
  by (induction cs rule: conditioned.induct) simp_all

lemma completed_induct [consumes 1, case_names start round]:
  assumes run: "round_loop L sim x_o n (start prior w) = (None, s)"
    and base: "P 0 (start prior w)"
    and step: "\<And>k s1 theta x w1 de w2 post w3 d w4.
      round_loop L sim x_o k (start prior w) = (None, s1) \<Longrightarrow> P k s1 \<Longrightarrow>
      simulate_for_sbi L sim (proposal s1) 500 (world s1) = (Inr (theta, x), w1) \<Longrightarrow>
      train L (append_simulations (inference s1) theta x (proposal s1)) w1 = (Inr de, w2) \<Longrightarrow>
      build_posterior L (append_simulations (inference s1) theta x (proposal s1)) de w2 = (Inr post, w3) \<Longrightarrow>
      set_default_x L post x_o w3 = (Inr d, w4) \<Longrightarrow>
      P (Suc k) (s1\<lparr>inference := append_simulations (inference s1) theta x (proposal s1),
            posteriors := posteriors s1 @ [post],
            proposal := d,
            world := w4,
            calls := calls s1 @
       [Simulate sim (proposal s1) 500 (world s1) (Inr (theta, x), w1),
        AppendSimulations theta x (proposal s1),
        Train (append_simulations (inference s1) theta x (proposal s1)) w1 (Inr de, w2),
        BuildPosterior (append_simulations (inference s1) theta x (proposal s1)) de w2 (Inr post, w3),
        SetDefaultX post x_o w3 (Inr d, w4)]\<rparr>)"
  shows "P n s"
  using run
proof (induction n arbitrary: s)
  case 0
  then show ?case using base by simp
next
  case (Suc n)
  obtain r s1 where l: "round_loop L sim x_o n (start prior w) = (r, s1)"
    by (cases "round_loop L sim x_o n (start prior w)")
  have r: "r = None"
    using Suc.prems l by (cases r) (simp_all add: round_loop_snoc del: round_loop.simps)
  have b: "round_body L sim x_o s1 = (None, s)"
    using Suc.prems l r by (simp add: round_loop_snoc del: round_loop.simps)
  have l': "round_loop L sim x_o n (start prior w) = (None, s1)"
    using l r by simp
  from round_body_completes [OF b] obtain theta x w1 de w2 post w3 d w4 where
    "simulate_for_sbi L sim (proposal s1) 500 (world s1) = (Inr (theta, x), w1)"
    "train L (append_simulations (inference s1) theta x (proposal s1)) w1 = (Inr de, w2)"
    "build_posterior L (append_simulations (inference s1) theta x (proposal s1)) de w2 = (Inr post, w3)"
    "set_default_x L post x_o w3 = (Inr d, w4)"
    "s = s1\<lparr>inference := append_simulations (inference s1) theta x (proposal s1),
            posteriors := posteriors s1 @ [post],
            proposal := d,
            world := w4,
            calls := calls s1 @
       [Simulate sim (proposal s1) 500 (world s1) (Inr (theta, x), w1),
        AppendSimulations theta x (proposal s1),
        Train (append_simulations (inference s1) theta x (proposal s1)) w1 (Inr de, w2),
        BuildPosterior (append_simulations (inference s1) theta x (proposal s1)) de w2 (Inr post, w3),
        SetDefaultX post x_o w3 (Inr d, w4)]\<rparr>"
    by blast
  then show ?case
    using step [OF l' Suc.IH [OF l']] by simp
qed

lemma completed_lengths:
  assumes "round_loop L sim x_o n (start prior w) = (None, s)"
  shows "length (posteriors s) = n \<and> length (calls s) = 5 * n \<and>
         length (rounds (inference s)) = n \<and> snpe_prior (inference s) = prior"
  using assms
  by (induction rule: completed_induct) (simp_all add: start_def SNPE_def append_simulations_def)

lemma completed_no_raise:
  assumes "round_loop L sim x_o n (start prior w) = (None, s)"
  shows "list_all (\<lambda>c. raised c = None) (calls s)"
  using assms
  by (induction rule: completed_induct) (simp_all add: start_def)

lemma completed_dataset:
  assumes "round_loop L sim x_o n (start prior w) = (None, s)"
  shows "rounds (inference s) = appended (calls s) \<and> appended (calls s) = simulated (calls s)"
  using assms
  by (induction rule: completed_induct) (simp_all add: start_def SNPE_def append_simulations_def)

lemma completed_simulations:
  assumes "round_loop L sim x_o n (start prior w) = (None, s)"
  shows "proposals_used (calls s) = map (\<lambda>(theta, x, d). d) (simulated (calls s)) \<and>
         budgets (calls s) = replicate n 500"
  using assms
  by (induction rule: completed_induct) (simp_all add: start_def replicate_append_same)

lemma completed_proposals:
  assumes "round_loop L sim x_o n (start prior w) = (None, s)"
  shows "proposals_used (calls s) @ [proposal s] =
           prior # map (\<lambda>(posterior, x, d). d) (conditioned (calls s)) \<and>
         map (\<lambda>(posterior, x, d). (posterior, x)) (conditioned (calls s)) =
           map (\<lambda>posterior. (posterior, x_o)) (posteriors s)"
  using assms
  by (induction rule: completed_induct) (simp_all add: start_def)

lemma completed_built:
  assumes "round_loop L sim x_o n (start prior w) = (None, s)"
  shows "built (calls s) = zip (estimators (calls s)) (posteriors s) \<and>
         length (estimators (calls s)) = n \<and> length (posteriors s) = n"
  using assms
  by (induction rule: completed_induct) (simp_all add: start_def)

lemma completed_trained_on:
  assumes "round_loop L sim x_o n (start prior w) = (None, s)"
  shows "trained_on (calls s) =
           map (\<lambda>k. \<lparr>snpe_prior = prior, rounds = take (Suc k) (rounds (inference s))\<rparr>) [0..<n] \<and>
         length (rounds (inference s)) = n \<and> snpe_prior (inference s) = prior"
  using assms
  by (induction rule: completed_induct) (simp_all add: start_def SNPE_def append_simulations_def)

lemma round_body_raises_cases [consumes 1, case_names simulate train build condition]:
  assumes "round_body L sim x_o s = (Some e, s')"
  obtains
    (simulate) w1 where
      "s' = s\<lparr>world := w1,
              calls := calls s @ [Simulate sim (proposal s) 500 (world s) (Inl e, w1)]\<rparr>"
  | (train) theta x w1 w2 where
      "s' = s\<lparr>inference := append_simulations (inference s) theta x (proposal s),
              world := w2,
              calls := calls s @
                [Simulate sim (proposal s) 500 (world s) (Inr (theta, x), w1),
                 AppendSimulations theta x (proposal s),
                 Train (append_simulations (inference s) theta x (proposal s)) w1 (Inl e, w2)]\<rparr>"
  | (build) theta x w1 de w2 w3 where
      "s' = s\<lparr>inference := append_simulations (inference s) theta x (proposal s),
              world := w3,
              calls := calls s @
                [Simulate sim (proposal s) 500 (world s) (Inr (theta, x), w1),
                 AppendSimulations theta x (proposal s),
                 Train (append_simulations (inference s) theta x (proposal s)) w1 (Inr de, w2),
                 BuildPosterior (append_simulations (inference s) theta x (proposal s)) de w2 (Inl e, w3)]\<rparr>"
  | (condition) theta x w1 de w2 post w3 w4 where
      "s' = s\<lparr>inference := append_simulations (inference s) theta x (proposal s),
              posteriors := posteriors s @ [post],
              world := w4,
              calls := calls s @
                [Simulate sim (proposal s) 500 (world s) (Inr (theta, x), w1),
                 AppendSimulations theta x (proposal s),
                 Train (append_simulations (inference s) theta x (proposal s)) w1 (Inr de, w2),
                 BuildPosterior (append_simulations (inference s) theta x (proposal s)) de w2 (Inr post, w3),
                 SetDefaultX post x_o w3 (Inl e, w4)]\<rparr>"
proof -
  obtain r1 w1 where c1: "simulate_for_sbi L sim (proposal s) 500 (world s) = (r1, w1)"
    by (cases "simulate_for_sbi L sim (proposal s) 500 (world s)")
  show thesis
  proof (cases r1)
    case (Inl e1)
    with c1 assms show thesis
      by (intro simulate [of w1]) (auto simp add: round_body_def call_simulate_for_sbi_def)
  next
    case (Inr tx)
    obtain theta x where tx: "tx = (theta, x)" by (cases tx)
    let ?inf = "append_simulations (inference s) theta x (proposal s)"
    obtain r2 w2 where c2: "train L ?inf w1 = (r2, w2)"
      by (cases "train L ?inf w1")
    show thesis
    proof (cases r2)
      case (Inl e2)
      with c1 Inr tx c2 assms show thesis
        by (intro train [of theta x w1 w2])
          (auto simp add: round_body_def call_simulate_for_sbi_def call_append_simulations_def
            call_train_def)
    next
      case de: (Inr de)
      obtain r3 w3 where c3: "build_posterior L ?inf de w2 = (r3, w3)"
        by (cases "build_posterior L ?inf de w2")
      show thesis
      proof (cases r3)
        case (Inl e3)
        with c1 Inr tx c2 de c3 assms show thesis
          by (intro build [of theta x w1 de w2 w3])
            (auto simp add: round_body_def call_simulate_for_sbi_def call_append_simulations_def
              call_train_def call_build_posterior_def)
      next
        case post: (Inr post)
        obtain r4 w4 where c4: "set_default_x L post x_o w3 = (r4, w4)"
          by (cases "set_default_x L post x_o w3")
        show thesis
        proof (cases r4)
          case (Inl e4)
          with c1 Inr tx c2 de c3 post c4 assms show thesis
            by (intro condition [of theta x w1 de w2 post w3 w4])
              (auto simp add: round_body_def call_simulate_for_sbi_def call_append_simulations_def
                call_train_def call_build_posterior_def call_set_default_x_def)
        next
          case (Inr d)
          with c1 \<open>r1 = Inr tx\<close> tx c2 de c3 post c4 assms show thesis
            by (auto simp add: round_body_def call_simulate_for_sbi_def call_append_simulations_def
                call_train_def call_build_posterior_def call_set_default_x_def)
        qed
      qed
    qed
  qed
qed

lemma round_loop_raises:
  assumes "round_loop L sim x_o n s0 = (Some e, s)"
  shows "\<exists>m sm. m < n \<and> round_loop L sim x_o m s0 = (None, sm) \<and>
           round_body L sim x_o sm = (Some e, s)"
  using assms
proof (induction n)
  case 0
  then show ?case by simp
next
  case (Suc n)
  obtain r sn where l: "round_loop L sim x_o n s0 = (r, sn)"
    by (cases "round_loop L sim x_o n s0")
  show ?case
  proof (cases r)
    case None
    with l Suc.prems have "round_body L sim x_o sn = (Some e, s)"
      by (simp add: round_loop_snoc del: round_loop.simps)
    with l None show ?thesis by blast
  next
    case (Some e')
    with l Suc.prems have "round_loop L sim x_o n s0 = (Some e, s)"
      by (simp add: round_loop_snoc del: round_loop.simps)
    from Suc.IH [OF this] show ?thesis
      using less_Suc_eq by blast
  qed
qed

lemma round_loop_propagates:
  assumes "round_loop L sim x_o m s0 = (None, sm)"
      and "round_body L sim x_o sm = (Some e, s)"
      and "m < n"
  shows "round_loop L sim x_o n s0 = (Some e, s)"
proof -
  from \<open>m < n\<close> obtain j where n: "n = Suc (m + j)"
    using less_imp_Suc_add by blast
  have "round_loop L sim x_o (m + Suc j) s0 = (Some e, s)"
    unfolding round_loop_add using assms(1,2) by simp
  then show ?thesis
    using n by simp
qed

lemma round_loop_prefix:
  assumes "round_loop L sim x_o n s0 = (None, s)" and "m \<le> n"
  shows "\<exists>sm. round_loop L sim x_o m s0 = (None, sm) \<and> round_loop L sim x_o (n - m) sm = (None, s)"
proof -
  from \<open>m \<le> n\<close> obtain j where n: "n = m + j"
    using le_Suc_ex by blast
  obtain r sm where l: "round_loop L sim x_o m s0 = (r, sm)"
    by (cases "round_loop L sim x_o m s0")
  from assms(1) have *: "round_loop L sim x_o (m + j) s0 = (None, s)"
    unfolding n .
  have "r = None"
    using * l by (cases r) (simp_all add: round_loop_add)
  moreover have "round_loop L sim x_o j sm = (None, s)"
    using * l \<open>r = None\<close> by (simp add: round_loop_add)
  ultimately show ?thesis
    using l n by simp
qed

lemma round_body_extends:
  assumes "round_body L sim x_o s = (r, s')"
  shows "\<exists>cs. calls s' = calls s @ cs"
proof (cases r)
  case None
  with assms round_body_completes [of L sim x_o s s'] show ?thesis by auto
next
  case (Some e)
  with assms have "round_body L sim x_o s = (Some e, s')" by simp
  then show ?thesis
    by (cases rule: round_body_raises_cases) simp_all
qed

lemma round_loop_extends:
  assumes "round_loop L sim x_o n s = (r, s')"
  shows "\<exists>cs. calls s' = calls s @ cs"
  using assms
proof (induction n arbitrary: s)
  case 0
  then show ?case by simp
next
  case (Suc n)
  obtain rb s1 where b: "round_body L sim x_o s = (rb, s1)"
    by (cases "round_body L sim x_o s")
  from round_body_extends [OF b] obtain cs where cs: "calls s1 = calls s @ cs" ..
  show ?case
  proof (cases rb)
    case None
    with b Suc.prems have "round_loop L sim x_o n s1 = (r, s')" by simp
    from Suc.IH [OF this] obtain ds where "calls s' = calls s1 @ ds" ..
    with cs show ?thesis by simp
  next
    case (Some e)
    with b Suc.prems have "s' = s1" by simp
    with cs show ?thesis by simp
  qed
qed

lemma run_cases [consumes 1, case_names completed raised]:
  assumes "round_loop L sim x_o n s0 = (r, s)"
  obtains (completed) "r = None" "round_loop L sim x_o n s0 = (None, s)"
  | (raised) e m sm where "r = Some e" "m < n" "round_loop L sim x_o m s0 = (None, sm)"
      "round_body L sim x_o sm = (Some e, s)"
proof (cases r)
  case None
  with assms show thesis by (intro completed) simp_all
next
  case (Some e)
  with assms have "round_loop L sim x_o n s0 = (Some e, s)" by simp
  from round_loop_raises [OF this] obtain m sm where "m < n"
    "round_loop L sim x_o m s0 = (None, sm)" "round_body L sim x_o sm = (Some e, s)"
    by blast
  with Some show thesis by (intro raised)
qed

lemma run_dataset:
  assumes "round_loop L sim x_o n (start prior w) = (r, s)"
  shows "appended (calls s) = simulated (calls s) \<and> rounds (inference s) = appended (calls s)"
  using assms
proof (cases rule: run_cases)
  case completed
  from completed_dataset [OF completed(2)] show ?thesis by simp
next
  case (raised e m sm)
  note sm = completed_dataset [OF raised(3)]
  from raised(4) show ?thesis
    by (cases rule: round_body_raises_cases) (simp_all add: sm append_simulations_def)
qed

lemma run_proposals:
  assumes "round_loop L sim x_o n (start prior w) = (r, s)"
  shows "proposals_used (calls s) =
           take (length (proposals_used (calls s)))
             (prior # map (\<lambda>(posterior, x, d). d) (conditioned (calls s))) \<and>
         map (\<lambda>(posterior, x, d). (posterior, x)) (conditioned (calls s)) =
           map (\<lambda>posterior. (posterior, x_o)) (take (length (conditioned (calls s))) (posteriors s)) \<and>
         posteriors s = map snd (built (calls s))"
  using assms
proof (cases rule: run_cases)
  case completed
  note c = completed_proposals [OF completed(2)] completed_built [OF completed(2)]
    completed_lengths [OF completed(2)]
  have 1: "length (conditioned (calls s)) = n"
    using c(1) c(3) by (metis length_map)
  have 2: "length (proposals_used (calls s)) = n"
    using c(1) 1 by (metis Suc_inject length_Cons length_append_singleton length_map)
  have "proposals_used (calls s) = take n (proposals_used (calls s) @ [proposal s])"
    using 2 by simp
  then have "proposals_used (calls s) = take n (prior # map (\<lambda>(posterior, x, d). d) (conditioned (calls s)))"
    using c(1) by simp
  moreover have "posteriors s = map snd (built (calls s))"
    using c(2) by simp
  ultimately show ?thesis
    using c(1) c(3) 1 2 by simp
next
  case (raised e m sm)
  note c = completed_proposals [OF raised(3)] completed_built [OF raised(3)]
    completed_lengths [OF raised(3)]
  have 1: "length (conditioned (calls sm)) = m"
    using c(1) c(3) by (metis length_map)
  have 2: "length (proposals_used (calls sm)) = m"
    using c(1) 1 by (metis Suc_inject length_Cons length_append_singleton length_map)
  have 3: "posteriors sm = map snd (built (calls sm))"
    using c(2) by simp
  have 4: "take (Suc m) (prior # map (\<lambda>(posterior, x, d). d) (conditioned (calls sm))) =
      proposals_used (calls sm) @ [proposal sm]"
    using c(1) 1 by simp
  from raised(4) show ?thesis
    by (cases rule: round_body_raises_cases) (use c(1) c(3) 1 2 3 4 in simp_all)
qed

lemma length_budgets: "length (budgets cs) = length (proposals_used cs)"
  by (induction cs rule: budgets.induct) simp_all

lemma run_simulations:
  assumes "round_loop L sim x_o n (start prior w) = (r, s)"
  shows "map (\<lambda>(theta, x, d). d) (simulated (calls s)) =
           take (length (simulated (calls s))) (proposals_used (calls s)) \<and>
         length (simulated (calls s)) \<le> length (proposals_used (calls s))"
  using assms
proof (cases rule: run_cases)
  case completed
  from completed_simulations [OF completed(2)]
  have 1: "proposals_used (calls s) = map (\<lambda>(theta, x, d). d) (simulated (calls s))"
    by (rule conjunct1)
  have 2: "length (proposals_used (calls s)) = length (simulated (calls s))"
    by (subst 1) (simp only: length_map)
  show ?thesis
    using 2 by (simp add: 1 [symmetric])
next
  case (raised e m sm)
  from completed_simulations [OF raised(3)]
  have 1: "proposals_used (calls sm) = map (\<lambda>(theta, x, d). d) (simulated (calls sm))"
    by (rule conjunct1)
  have 2: "length (proposals_used (calls sm)) = length (simulated (calls sm))"
    by (subst 1) (simp only: length_map)
  from raised(4) show ?thesis
    by (cases rule: round_body_raises_cases) (simp_all add: 1 [symmetric] 2)
qed

lemma run_count:
  assumes "round_loop L sim x_o n (start prior w) = (r, s)"
  shows "length (proposals_used (calls s)) \<le> n \<and>
         (r = None \<longleftrightarrow> list_all (\<lambda>c. raised c = None) (calls s))"
  using assms
proof (cases rule: run_cases)
  case completed
  from completed_simulations [OF completed(2)] have "length (budgets (calls s)) = n"
    by simp
  then show ?thesis
    using completed(1) completed_no_raise [OF completed(2)] by (simp add: length_budgets)
next
  case (raised e m sm)
  from completed_simulations [OF raised(3)] have "length (budgets (calls sm)) = m"
    by simp
  then have 1: "length (proposals_used (calls sm)) = m"
    by (simp add: length_budgets)
  from raised(4) show ?thesis
    by (cases rule: round_body_raises_cases) (use 1 raised(1,2) in simp_all)
qed

subsection \<open>Runs of the small library\<close>

lemmas toy_defs = multiround_def start_def SNPE_def round_body_def call_simulate_for_sbi_def
  call_append_simulations_def call_train_def call_build_posterior_def call_set_default_x_def
  toy_sbi_def append_simulations_def dataset_size_def

lemma toy_run_1:
  "multiround toy_sbi () 0 7 1 0 =
    (None,
     \<lparr>inference = \<lparr>snpe_prior = 0, rounds = [([0, 1], [0, 1], 0)]\<rparr>,
      posteriors = [20], proposal = 27, world = 2,
      calls =
       [Simulate () 0 500 0 (Inr ([0, 1], [0, 1]), 1),
        AppendSimulations [0, 1] [0, 1] 0,
        Train \<lparr>snpe_prior = 0, rounds = [([0, 1], [0, 1], 0)]\<rparr> 1 (Inr 2, 2),
        BuildPosterior \<lparr>snpe_prior = 0, rounds = [([0, 1], [0, 1], 0)]\<rparr> 2 2 (Inr 20, 2),
        SetDefaultX 20 7 2 (Inr 27, 2)]\<rparr>)"
  by (simp add: toy_defs)

lemma toy_run_2:
  "multiround toy_sbi () 0 7 2 0 =
    (None,
     \<lparr>inference = \<lparr>snpe_prior = 0, rounds = [([0, 1], [0, 1], 0), ([2, 3], [29, 30], 27)]\<rparr>,
      posteriors = [20, 40], proposal = 47, world = 4,
      calls =
       [Simulate () 0 500 0 (Inr ([0, 1], [0, 1]), 1),
        AppendSimulations [0, 1] [0, 1] 0,
        Train \<lparr>snpe_prior = 0, rounds = [([0, 1], [0, 1], 0)]\<rparr> 1 (Inr 2, 2),
        BuildPosterior \<lparr>snpe_prior = 0, rounds = [([0, 1], [0, 1], 0)]\<rparr> 2 2 (Inr 20, 2),
        SetDefaultX 20 7 2 (Inr 27, 2),
        Simulate () 27 500 2 (Inr ([2, 3], [29, 30]), 3),
        AppendSimulations [2, 3] [29, 30] 27,
        Train \<lparr>snpe_prior = 0, rounds = [([0, 1], [0, 1], 0), ([2, 3], [29, 30], 27)]\<rparr> 3
          (Inr 4, 4),
        BuildPosterior
          \<lparr>snpe_prior = 0, rounds = [([0, 1], [0, 1], 0), ([2, 3], [29, 30], 27)]\<rparr> 4 4
          (Inr 40, 4),
        SetDefaultX 40 7 4 (Inr 47, 4)]\<rparr>)"
  by (simp add: toy_defs numeral_2_eq_2)

lemma toy_run_3:
  "multiround toy_sbi () 0 7 3 0 =
    (Some (Exception ''diverged''),
     \<lparr>inference = \<lparr>snpe_prior = 0,
        rounds = [([0, 1], [0, 1], 0), ([2, 3], [29, 30], 27), ([4, 5], [51, 52], 47)]\<rparr>,
      posteriors = [20, 40], proposal = 47, world = 5,
      calls =
       [Simulate () 0 500 0 (Inr ([0, 1], [0, 1]), 1),
        AppendSimulations [0, 1] [0, 1] 0,
        Train \<lparr>snpe_prior = 0, rounds = [([0, 1], [0, 1], 0)]\<rparr> 1 (Inr 2, 2),
        BuildPosterior \<lparr>snpe_prior = 0, rounds = [([0, 1], [0, 1], 0)]\<rparr> 2 2 (Inr 20, 2),
        SetDefaultX 20 7 2 (Inr 27, 2),
        Simulate () 27 500 2 (Inr ([2, 3], [29, 30]), 3),
        AppendSimulations [2, 3] [29, 30] 27,
        Train \<lparr>snpe_prior = 0, rounds = [([0, 1], [0, 1], 0), ([2, 3], [29, 30], 27)]\<rparr> 3
          (Inr 4, 4),
        BuildPosterior
          \<lparr>snpe_prior = 0, rounds = [([0, 1], [0, 1], 0), ([2, 3], [29, 30], 27)]\<rparr> 4 4
          (Inr 40, 4),
        SetDefaultX 40 7 4 (Inr 47, 4),
        Simulate () 47 500 4 (Inr ([4, 5], [51, 52]), 5),
        AppendSimulations [4, 5] [51, 52] 47,
        Train
          \<lparr>snpe_prior = 0,
             rounds = [([0, 1], [0, 1], 0), ([2, 3], [29, 30], 27), ([4, 5], [51, 52], 47)]\<rparr>
          5 (Inl (Exception ''diverged''), 5)]\<rparr>)"
  by (simp add: toy_defs numeral_3_eq_3)


section \<open>The linear-Gaussian simulator\<close>

text \<open>
  Claim C7. For every parameter vector \<open>theta\<close> and every noise vector \<open>eps\<close> that
  \<^verbatim>\<open>torch.randn_like(theta)\<close> returns (a tensor of the shape of \<open>theta\<close>),
  \<open>linear_gaussian\<close> returns \<open>theta + 1.0 + 0.1 * eps\<close>, computed in the arithmetic of
  the tensor's dtype: the result has the shape of \<open>theta\<close>, and its entry \<open>i\<close> is the sum
  of \<open>theta ! i + 1.0\<close> and \<open>0.1 * eps ! i\<close>, with the sums and the product of that dtype.
  The code multiplies in the order \<open>eps * 0.1\<close>, which is the first equation; that the
  product with the entry \<open>0.1\<close> does not depend on the order of its factors, as is the
  case for floating-point numbers, is the one law used for the claim's order. The
  generator is left in the state in which \<open>randn_like\<close> left it.
\<close>

theorem linear_gaussian_formula:
  assumes "randn_like theta g = (eps, g')" and "length eps = length theta"
    and "\<forall>a. mul D a (scalar D 0.1) = mul D (scalar D 0.1) a"
  shows "fst (linear_gaussian D randn_like theta g) =
           map2 (\<lambda>t e. add D (add D t (scalar D 1.0)) (mul D e (scalar D 0.1))) theta eps \<and>
         fst (linear_gaussian D randn_like theta g) =
           map2 (\<lambda>t e. add D (add D t (scalar D 1.0)) (mul D (scalar D 0.1) e)) theta eps \<and>
         length (fst (linear_gaussian D randn_like theta g)) = length theta \<and>
         (\<forall>i < length theta.
            fst (linear_gaussian D randn_like theta g) ! i =
              add D (add D (theta ! i) (scalar D 1.0)) (mul D (scalar D 0.1) (eps ! i))) \<and>
         snd (linear_gaussian D randn_like theta g) = g'"
proof -
  have comm: "mul D a (scalar D (1 / 10)) = mul D (scalar D (1 / 10)) a" for a
    using assms(3) by simp
  have code: "linear_gaussian D randn_like theta g =
      (map2 (\<lambda>t e. add D (add D t (scalar D 1.0)) (mul D e (scalar D 0.1))) theta eps, g')"
    using assms(1)
    by (simp add: linear_gaussian_def add_tensor_def add_scalar_def mul_scalar_def zip_map_map
        case_prod_unfold)
  have out: "linear_gaussian D randn_like theta g =
      (map2 (\<lambda>t e. add D (add D t (scalar D 1.0)) (mul D (scalar D 0.1) e)) theta eps, g')"
    unfolding code by (simp add: comm)
  have 1: "fst (linear_gaussian D randn_like theta g) =
      map2 (\<lambda>t e. add D (add D t (scalar D 1.0)) (mul D e (scalar D 0.1))) theta eps"
    unfolding code by simp
  have 2: "fst (linear_gaussian D randn_like theta g) =
           map2 (\<lambda>t e. add D (add D t (scalar D 1.0)) (mul D (scalar D 0.1) e)) theta eps \<and>
         length (fst (linear_gaussian D randn_like theta g)) = length theta \<and>
         (\<forall>i < length theta.
            fst (linear_gaussian D randn_like theta g) ! i =
              add D (add D (theta ! i) (scalar D 1.0)) (mul D (scalar D 0.1) (eps ! i))) \<and>
         snd (linear_gaussian D randn_like theta g) = g'"
    unfolding out using assms(2) by simp
  from 1 2 show ?thesis by (rule conjI)
qed

theorem linear_gaussian_formula_witness:
  "linear_gaussian tenths (\<lambda>t g. ([10, - 10, 25], Suc g)) [0, 5, - 20] (0::nat) =
     ([11, 14, - 8], 1)"
proof -
  have comm: "\<forall>a. mul tenths a (scalar tenths 0.1) = mul tenths (scalar tenths 0.1) a"
    by (simp add: tenths_def mult.commute)
  from linear_gaussian_formula [of "\<lambda>t g. ([10, - 10, 25], Suc g)" "[0, 5, - 20]" "0::nat"
      "[10, - 10, 25]" "Suc 0" tenths, OF _ _ comm]
  show ?thesis
    by (simp add: prod_eq_iff tenths_def)
qed

section \<open>The proposal of each round\<close>

text \<open>
  Claim C1. In any run of the loop, whatever its outcome, and for every round \<open>k\<close> that
  was entered (the \<open>k\<close>-th \<^verbatim>\<open>simulate_for_sbi\<close> call was made): the proposal used in round 1
  is the prior, and for \<open>k > 1\<close> the proposal used in round \<open>k\<close> is what
  \<^verbatim>\<open>set_default_x\<close> returned in round \<open>k - 1\<close>, when it was called on the posterior built in
  round \<open>k - 1\<close> (entry \<open>k - 2\<close> of \<open>posteriors\<close>, which count from 0) with the target
  observation \<open>x_o\<close>. A run that completes enters every round from 1 to \<open>num_rounds\<close>.
\<close>

theorem proposal_of_each_round:
  assumes "multiround L simulator prior x_o num_rounds w = (r, s)"
    and "1 \<le> k" and "k \<le> length (proposals_used (calls s))"
  shows "(k = 1 \<longrightarrow> proposals_used (calls s) ! (k - 1) = prior) \<and>
         (1 < k \<longrightarrow>
            conditioned (calls s) ! (k - 2) =
              (posteriors s ! (k - 2), x_o, proposals_used (calls s) ! (k - 1)) \<and>
            snd (built (calls s) ! (k - 2)) = posteriors s ! (k - 2)) \<and>
         (r = None \<longrightarrow> length (proposals_used (calls s)) = nat num_rounds)"
proof -
  let ?P = "proposals_used (calls s)" and ?C = "conditioned (calls s)"
  from assms(1) have run: "round_loop L simulator x_o (nat num_rounds) (start prior w) = (r, s)"
    by (simp add: multiround_def)
  note inv = run_proposals [OF run]
  have P: "?P = take (length ?P) (prior # map (\<lambda>(posterior, x, d). d) ?C)"
    by (rule inv [THEN conjunct1])
  have C: "map (\<lambda>(posterior, x, d). (posterior, x)) ?C =
      map (\<lambda>posterior. (posterior, x_o)) (take (length ?C) (posteriors s))"
    by (rule inv [THEN conjunct2, THEN conjunct1])
  have B: "posteriors s = map snd (built (calls s))"
    by (rule inv [THEN conjunct2, THEN conjunct2])
  have nth: "?P ! (k - 1) = (prior # map (\<lambda>(posterior, x, d). d) ?C) ! (k - 1)"
    using assms(2,3) by (subst P) simp
  have first: "k = 1 \<longrightarrow> ?P ! (k - 1) = prior"
    using nth by auto
  have later: "conditioned (calls s) ! (k - 2) =
              (posteriors s ! (k - 2), x_o, proposals_used (calls s) ! (k - 1)) \<and>
            snd (built (calls s) ! (k - 2)) = posteriors s ! (k - 2)" if k: "1 < k"
  proof -
    from less_imp_Suc_add [OF k] obtain j where kj: "k = Suc (Suc j)"
      by auto
    have "length ?P \<le> Suc (length ?C)"
      by (subst P) simp
    with assms(3) have lt: "j < length ?C" by (simp add: kj)
    have "length (map (\<lambda>(posterior, x, d). (posterior, x)) ?C) =
        length (map (\<lambda>posterior. (posterior, x_o)) (take (length ?C) (posteriors s)))"
      by (rule arg_cong [OF C])
    then have "length ?C = min (length (posteriors s)) (length ?C)"
      by (simp only: length_map length_take)
    then have "length ?C \<le> length (posteriors s)"
      by arith
    with lt have ltp: "j < length (posteriors s)" by simp
    have d: "(case ?C ! j of (posterior, x, d) \<Rightarrow> d) = ?P ! Suc j"
      using nth lt by (simp add: kj)
    have "map (\<lambda>(posterior, x, d). (posterior, x)) ?C ! j =
      map (\<lambda>posterior. (posterior, x_o)) (take (length ?C) (posteriors s)) ! j"
      using C by simp
    then have px: "(case ?C ! j of (posterior, x, d) \<Rightarrow> (posterior, x)) = (posteriors s ! j, x_o)"
      using lt ltp by simp
    have 1: "?C ! j = (posteriors s ! j, x_o, ?P ! Suc j)"
      using d px by (cases "?C ! j") simp
    have "length (posteriors s) = length (map snd (built (calls s)))"
      by (rule arg_cong [OF B])
    then have "length (built (calls s)) = length (posteriors s)"
      by (simp only: length_map)
    with ltp have "map snd (built (calls s)) ! j = snd (built (calls s) ! j)"
      by simp
    with B have 2: "snd (built (calls s) ! j) = posteriors s ! j"
      by simp
    from 1 2 show ?thesis by (simp add: kj)
  qed
  have all: "length ?P = nat num_rounds" if "r = None"
  proof -
    from run that have c: "round_loop L simulator x_o (nat num_rounds) (start prior w) = (None, s)"
      by simp
    from completed_simulations [OF c] have "length (budgets (calls s)) = nat num_rounds"
      by simp
    then show ?thesis by (simp add: length_budgets)
  qed
  show ?thesis
    using first later all by (intro conjI impI) simp_all
qed

theorem proposal_of_each_round_witness:
  "proposals_used (calls (snd (multiround toy_sbi () 0 7 3 0))) ! 0 = 0 \<and>
   proposals_used (calls (snd (multiround toy_sbi () 0 7 3 0))) ! 2 = 47 \<and>
   conditioned (calls (snd (multiround toy_sbi () 0 7 3 0))) ! 1 = (40, 7, 47) \<and>
   posteriors (snd (multiround toy_sbi () 0 7 3 0)) ! 1 = 40 \<and>
   length (proposals_used (calls (snd (multiround toy_sbi () 0 7 2 0)))) = 2"
  using proposal_of_each_round [OF toy_run_3, of 1] proposal_of_each_round [OF toy_run_3, of 3]
    proposal_of_each_round [OF toy_run_2, of 1]
  by (simp add: toy_run_3 toy_run_2)

section \<open>The proposal tag of a batch\<close>

text \<open>
  Claim C10. In any run, whatever its outcome, the batches and tags passed to
  \<^verbatim>\<open>append_simulations\<close> are, call by call, the batches the \<^verbatim>\<open>simulate_for_sbi\<close>
  calls returned, each with the proposal that call was given; these proposals are the
  proposals of the first rounds, in order. The dataset stored by the inference object
  is this same list.
\<close>

theorem tag_is_sampling_proposal:
  assumes "multiround L simulator prior x_o num_rounds w = (r, s)"
  shows "appended (calls s) = simulated (calls s) \<and>
         map (\<lambda>(theta, x, d). d) (appended (calls s)) =
           take (length (appended (calls s))) (proposals_used (calls s)) \<and>
         rounds (inference s) = simulated (calls s)"
proof -
  from assms have run: "round_loop L simulator x_o (nat num_rounds) (start prior w) = (r, s)"
    by (simp add: multiround_def)
  from run_dataset [OF run] have 1: "appended (calls s) = simulated (calls s)"
    and 2: "rounds (inference s) = appended (calls s)"
    by simp_all
  from run_simulations [OF run] have 3: "map (\<lambda>(theta, x, d). d) (simulated (calls s)) =
           take (length (simulated (calls s))) (proposals_used (calls s))"
    by (rule conjunct1)
  show ?thesis
    unfolding 2 1 using 3 by simp
qed

theorem tag_is_sampling_proposal_witness:
  "appended (calls (snd (multiround toy_sbi () 0 7 3 0))) =
     [([0, 1], [0, 1], 0), ([2, 3], [29, 30], 27), ([4, 5], [51, 52], 47)] \<and>
   simulated (calls (snd (multiround toy_sbi () 0 7 3 0))) =
     [([0, 1], [0, 1], 0), ([2, 3], [29, 30], 27), ([4, 5], [51, 52], 47)] \<and>
   proposals_used (calls (snd (multiround toy_sbi () 0 7 3 0))) = [0, 27, 47]"
  using tag_is_sampling_proposal [OF toy_run_3]
  by (simp add: toy_run_3)

section \<open>The number of rounds\<close>

text \<open>
  Claim C6. The loop always ends: \<open>round_loop\<close> is a total function, defined by
  recursion on the number of rounds left. It never enters more than \<open>num_rounds\<close>
  rounds, it ends early exactly when a library call raised, and otherwise it has
  entered exactly \<open>num_rounds\<close> rounds (none when \<open>num_rounds\<close> is negative) and made each
  of the five calls once per round, whatever the calls returned.
\<close>

theorem fixed_round_count:
  assumes "multiround L simulator prior x_o num_rounds w = (r, s)"
  shows "length (proposals_used (calls s)) \<le> nat num_rounds \<and>
         (r = None \<longleftrightarrow> list_all (\<lambda>c. raised c = None) (calls s)) \<and>
         (r = None \<longrightarrow>
            length (proposals_used (calls s)) = nat num_rounds \<and>
            length (trained_on (calls s)) = nat num_rounds \<and>
            length (posteriors s) = nat num_rounds \<and>
            length (calls s) = 5 * nat num_rounds)"
proof -
  from assms have run: "round_loop L simulator x_o (nat num_rounds) (start prior w) = (r, s)"
    by (simp add: multiround_def)
  have "length (proposals_used (calls s)) = nat num_rounds \<and>
        length (trained_on (calls s)) = nat num_rounds \<and>
        length (posteriors s) = nat num_rounds \<and>
        length (calls s) = 5 * nat num_rounds" if "r = None"
  proof -
    from run that have c: "round_loop L simulator x_o (nat num_rounds) (start prior w) = (None, s)"
      by simp
    from completed_simulations [OF c] have "length (budgets (calls s)) = nat num_rounds"
      by simp
    then have "length (proposals_used (calls s)) = nat num_rounds"
      by (simp add: length_budgets)
    moreover from completed_trained_on [OF c] have "length (trained_on (calls s)) = nat num_rounds"
      by simp
    ultimately show ?thesis
      using completed_lengths [OF c] by simp
  qed
  with run_count [OF run] show ?thesis by simp
qed

theorem fixed_round_count_witness:
  "length (proposals_used (calls (snd (multiround toy_sbi () 0 7 2 0)))) = 2 \<and>
   length (calls (snd (multiround toy_sbi () 0 7 2 0))) = 10 \<and>
   fst (multiround toy_sbi () 0 7 2 0) = None \<and>
   fst (multiround toy_sbi () 0 7 3 0) \<noteq> None \<and>
   \<not> list_all (\<lambda>c. raised c = None) (calls (snd (multiround toy_sbi () 0 7 3 0)))"
  using fixed_round_count [OF toy_run_2] fixed_round_count [OF toy_run_3]
  by (simp add: toy_run_2 toy_run_3)

section \<open>The sequence of posteriors\<close>

text \<open>
  Claim C2. A run that completes leaves exactly \<open>num_rounds\<close> posteriors in
  \<open>posteriors\<close>, in round order: for every round \<open>k\<close> from 1 to \<open>num_rounds\<close>, entry
  \<open>k - 1\<close> (the list counts from 0) is what the \<open>k\<close>-th \<^verbatim>\<open>build_posterior\<close> call returned, and
  that call was given the density estimator the \<open>k\<close>-th \<^verbatim>\<open>train\<close> call returned, which
  trained on the data of rounds 1 to \<open>k\<close>.
\<close>

theorem posteriors_in_round_order:
  assumes "multiround L simulator prior x_o num_rounds w = (None, s)"
  shows "length (posteriors s) = nat num_rounds \<and>
         length (estimators (calls s)) = nat num_rounds \<and>
         length (trained_on (calls s)) = nat num_rounds \<and>
         built (calls s) = zip (estimators (calls s)) (posteriors s) \<and>
         (\<forall>k. 1 \<le> k \<and> k \<le> nat num_rounds \<longrightarrow>
            built (calls s) ! (k - 1) = (estimators (calls s) ! (k - 1), posteriors s ! (k - 1)) \<and>
            rounds (trained_on (calls s) ! (k - 1)) = take k (rounds (inference s)))"
proof -
  let ?n = "nat num_rounds"
  from assms have run: "round_loop L simulator x_o ?n (start prior w) = (None, s)"
    by (simp add: multiround_def)
  note b = completed_built [OF run] and t = completed_trained_on [OF run]
  from b have zip: "built (calls s) = zip (estimators (calls s)) (posteriors s)"
    and le: "length (estimators (calls s)) = ?n" and lp: "length (posteriors s) = ?n"
    by simp_all
  from t have tr: "trained_on (calls s) =
      map (\<lambda>k. \<lparr>snpe_prior = prior, rounds = take (Suc k) (rounds (inference s))\<rparr>) [0..<?n]"
    by (rule conjunct1)
  have lt: "length (trained_on (calls s)) = ?n"
    by (subst tr) simp
  have per: "\<forall>k. 1 \<le> k \<and> k \<le> ?n \<longrightarrow>
      built (calls s) ! (k - 1) = (estimators (calls s) ! (k - 1), posteriors s ! (k - 1)) \<and>
      rounds (trained_on (calls s) ! (k - 1)) = take k (rounds (inference s))"
  proof (intro allI impI)
    fix k
    assume "1 \<le> k \<and> k \<le> ?n"
    then obtain j where k: "k = Suc j" and j: "j < ?n"
      by (cases k) simp_all
    have "built (calls s) ! j = (estimators (calls s) ! j, posteriors s ! j)"
      using j le lp by (simp add: zip)
    moreover have "rounds (trained_on (calls s) ! j) = take (Suc j) (rounds (inference s))"
      using j by (simp add: tr)
    ultimately show "built (calls s) ! (k - 1) =
        (estimators (calls s) ! (k - 1), posteriors s ! (k - 1)) \<and>
      rounds (trained_on (calls s) ! (k - 1)) = take k (rounds (inference s))"
      by (simp add: k)
  qed
  show ?thesis
    by (intro conjI) (rule lp le lt zip per)+
qed

theorem posteriors_in_round_order_witness:
  "posteriors (snd (multiround toy_sbi () 0 7 2 0)) = [20, 40] \<and>
   built (calls (snd (multiround toy_sbi () 0 7 2 0))) = [(2, 20), (4, 40)] \<and>
   estimators (calls (snd (multiround toy_sbi () 0 7 2 0))) = [2, 4] \<and>
   rounds (trained_on (calls (snd (multiround toy_sbi () 0 7 2 0))) ! 1) =
     [([0, 1], [0, 1], 0), ([2, 3], [29, 30], 27)]"
  using posteriors_in_round_order [OF toy_run_2]
  by (simp add: toy_run_2)

section \<open>Repeated runs\<close>

lemma at_most_one_single: "at_most_one {a}"
  by (simp add: at_most_one_def)

lemma at_most_one_image: "at_most_one A \<Longrightarrow> at_most_one (f ` A)"
  by (auto simp: at_most_one_def)

lemma at_most_one_then_nd:
  assumes "at_most_one A" and "\<And>a s. (a, s) \<in> A \<Longrightarrow> at_most_one (f a s)"
  shows "at_most_one (then_nd A f)"
  unfolding at_most_one_def then_nd_def
proof (intro ballI)
  fix a b
  assume "a \<in> (\<Union>(a, s)\<in>A. f a s)" and "b \<in> (\<Union>(a, s)\<in>A. f a s)"
  then obtain p q where p: "p \<in> A" "a \<in> f (fst p) (snd p)" and q: "q \<in> A" "b \<in> f (fst q) (snd q)"
    by (auto simp: case_prod_unfold)
  from assms(1) p(1) q(1) have "p = q"
    by (simp add: at_most_one_def)
  moreover from assms(2) [of "fst p" "snd p"] p(1) have "at_most_one (f (fst p) (snd p))"
    by simp
  ultimately show "a = b"
    using p(2) q(2) by (simp add: at_most_one_def)
qed

lemma round_body_nd_at_most_one:
  assumes sim: "\<forall>sim d n w. at_most_one (simulate_for_sbi_nd N sim d n w)"
    and tr: "\<forall>self w. at_most_one (train_nd N self w)"
    and bu: "\<forall>self density_estimator w. at_most_one (build_posterior_nd N self density_estimator w)"
    and se: "\<forall>posterior x w. at_most_one (set_default_x_nd N posterior x w)"
  shows "at_most_one (round_body_nd N simulator x_o s)"
proof -
  have c1: "at_most_one (call_simulate_for_sbi_nd N simulator d n t)" for d n t
    unfolding call_simulate_for_sbi_nd_def using sim by (intro at_most_one_image) simp
  have c2: "at_most_one (call_train_nd N t)" for t
    unfolding call_train_nd_def using tr by (intro at_most_one_image) simp
  have c3: "at_most_one (call_build_posterior_nd N density_estimator t)" for density_estimator t
    unfolding call_build_posterior_nd_def using bu by (intro at_most_one_image) simp
  have c4: "at_most_one (call_set_default_x_nd N posterior x t)" for posterior x t
    unfolding call_set_default_x_nd_def using se by (intro at_most_one_image) simp
  have step4: "at_most_one (case r4 of Inl e \<Rightarrow> {(Some e, s4)}
      | Inr d \<Rightarrow> {(None, s4\<lparr>proposal := d\<rparr>)})" for r4 and s4 :: "('s, 'dd, 'pp, 'oo, 'ee, 'ww, 'zz) notebook_scheme"
    by (cases r4) (simp_all add: at_most_one_single)
  have step3: "at_most_one (case r3 of Inl e \<Rightarrow> {(Some e, s3)}
      | Inr posterior \<Rightarrow>
     then_nd (call_set_default_x_nd N posterior x_o (s3\<lparr>posteriors := posteriors s3 @ [posterior]\<rparr>))
       (\<lambda>r4 s4. case r4 of Inl e \<Rightarrow> {(Some e, s4)}
       | Inr d \<Rightarrow> {(None, s4\<lparr>proposal := d\<rparr>)}))" for r3 s3
    by (cases r3) (auto simp: at_most_one_single intro!: at_most_one_then_nd c4 step4)
  have step2: "at_most_one (case r2 of Inl e \<Rightarrow> {(Some e, s2)}
      | Inr density_estimator \<Rightarrow>
     then_nd (call_build_posterior_nd N density_estimator s2) (\<lambda>r3 s3.
       case r3 of Inl e \<Rightarrow> {(Some e, s3)}
       | Inr posterior \<Rightarrow>
     then_nd (call_set_default_x_nd N posterior x_o (s3\<lparr>posteriors := posteriors s3 @ [posterior]\<rparr>))
       (\<lambda>r4 s4. case r4 of Inl e \<Rightarrow> {(Some e, s4)}
       | Inr d \<Rightarrow> {(None, s4\<lparr>proposal := d\<rparr>)})))" for r2 s2
    by (cases r2) (auto simp: at_most_one_single intro!: at_most_one_then_nd c3 step3)
  have step1: "at_most_one (case r1 of Inl e \<Rightarrow> {(Some e, s1)}
      | Inr (theta, x) \<Rightarrow>
     then_nd (call_train_nd N (call_append_simulations theta x (proposal s1) s1)) (\<lambda>r2 s2.
       case r2 of Inl e \<Rightarrow> {(Some e, s2)}
       | Inr density_estimator \<Rightarrow>
     then_nd (call_build_posterior_nd N density_estimator s2) (\<lambda>r3 s3.
       case r3 of Inl e \<Rightarrow> {(Some e, s3)}
       | Inr posterior \<Rightarrow>
     then_nd (call_set_default_x_nd N posterior x_o (s3\<lparr>posteriors := posteriors s3 @ [posterior]\<rparr>))
       (\<lambda>r4 s4. case r4 of Inl e \<Rightarrow> {(Some e, s4)}
       | Inr d \<Rightarrow> {(None, s4\<lparr>proposal := d\<rparr>)}))))" for r1 s1
  proof (cases r1)
    case (Inl e)
    then show ?thesis by (simp add: at_most_one_single)
  next
    case (Inr tx)
    then show ?thesis
      by (cases tx) (auto intro!: at_most_one_then_nd c2 step2)
  qed
  show ?thesis
    unfolding round_body_nd_def by (intro at_most_one_then_nd c1 step1)
qed

lemma round_loop_nd_at_most_one:
  assumes sim: "\<forall>sim d n w. at_most_one (simulate_for_sbi_nd N sim d n w)"
    and tr: "\<forall>self w. at_most_one (train_nd N self w)"
    and bu: "\<forall>self density_estimator w. at_most_one (build_posterior_nd N self density_estimator w)"
    and se: "\<forall>posterior x w. at_most_one (set_default_x_nd N posterior x w)"
  shows "at_most_one (round_loop_nd N simulator x_o n s)"
proof (induction n arbitrary: s)
  case 0
  show ?case by (simp add: at_most_one_single)
next
  case (Suc n)
  have "at_most_one (case r of Some e \<Rightarrow> {(Some e, s')}
      | None \<Rightarrow> round_loop_nd N simulator x_o n s')" for r s'
    by (cases r) (simp_all add: at_most_one_single Suc.IH)
  then show ?case
    by (auto intro!: at_most_one_then_nd round_body_nd_at_most_one [OF assms])
qed

lemma round_body_nd_of:
  "round_body_nd (nd_of L) simulator x_o s = {round_body L simulator x_o s}"
  by (simp add: round_body_nd_def round_body_def then_nd_def nd_of_def
      call_simulate_for_sbi_nd_def call_train_nd_def call_build_posterior_nd_def
      call_set_default_x_nd_def call_simulate_for_sbi_def call_train_def call_build_posterior_def
      call_set_default_x_def split: prod.splits sum.splits)

lemma round_loop_nd_of:
  "round_loop_nd (nd_of L) simulator x_o n s = {round_loop L simulator x_o n s}"
  by (induction n arbitrary: s)
    (simp_all add: round_body_nd_of then_nd_def split: prod.splits option.splits)

lemma multiround_nd_of:
  "multiround_nd (nd_of L) simulator prior x_o num_rounds w =
     {multiround L simulator prior x_o num_rounds w}"
  by (simp add: multiround_nd_def multiround_def round_loop_nd_of)

lemma at_most_oneD: "at_most_one A \<Longrightarrow> a \<in> A \<Longrightarrow> b \<in> A \<Longrightarrow> a = b"
  by (simp add: at_most_one_def)

text \<open>
  Claim C4. The simulator is deterministic and the random seed is fixed: every call
  into the library has at most one possible answer, given its arguments and the world
  (which holds the state of the random generator). Then any two runs of the loop with
  the same simulator, prior, target observation and round count (the batch size is the
  constant 500), started in the same world, end in the same way and in the same state:
  the same accumulated dataset and the same sequence of posteriors. The loop adds no
  choice of its own.
\<close>

theorem repeated_run_is_identical:
  assumes "\<forall>sim d n w. at_most_one (simulate_for_sbi_nd N sim d n w)"
    and "\<forall>self w. at_most_one (train_nd N self w)"
    and "\<forall>self density_estimator w. at_most_one (build_posterior_nd N self density_estimator w)"
    and "\<forall>posterior x w. at_most_one (set_default_x_nd N posterior x w)"
    and "(r1, s1) \<in> multiround_nd N simulator prior x_o num_rounds w"
    and "(r2, s2) \<in> multiround_nd N simulator prior x_o num_rounds w"
  shows "r1 = r2 \<and> s1 = s2 \<and>
         rounds (inference s1) = rounds (inference s2) \<and> posteriors s1 = posteriors s2"
proof -
  have "at_most_one (multiround_nd N simulator prior x_o num_rounds w)"
    unfolding multiround_nd_def by (rule round_loop_nd_at_most_one [OF assms(1-4)])
  from at_most_oneD [OF this assms(5,6)] show ?thesis by simp
qed

theorem repeated_run_is_identical_witness:
  "multiround_nd (nd_of toy_sbi) () 0 7 2 0 = {multiround toy_sbi () 0 7 2 0} \<and>
   fst (multiround toy_sbi () 0 7 2 0) = None \<and>
   posteriors (snd (multiround toy_sbi () 0 7 2 0)) = [20, 40] \<and>
   rounds (inference (snd (multiround toy_sbi () 0 7 2 0))) =
     [([0, 1], [0, 1], 0), ([2, 3], [29, 30], 27)]"
proof -
  let ?N = "nd_of toy_sbi :: (unit, nat, nat, nat, nat, nat) sbi_nd"
  have 1: "\<forall>sim d n w. at_most_one (simulate_for_sbi_nd ?N sim d n w)"
    and 2: "\<forall>self w. at_most_one (train_nd ?N self w)"
    and 3: "\<forall>self density_estimator w. at_most_one (build_posterior_nd ?N self density_estimator w)"
    and 4: "\<forall>posterior x w. at_most_one (set_default_x_nd ?N posterior x w)"
    by (simp_all add: nd_of_def at_most_one_single)
  have 5: "(fst (multiround toy_sbi () 0 7 2 0), snd (multiround toy_sbi () 0 7 2 0))
      \<in> multiround_nd ?N () 0 7 2 0"
    by (simp add: multiround_nd_of)
  from repeated_run_is_identical [OF 1 2 3 4 5 5] show ?thesis
    by (simp add: multiround_nd_of toy_run_2)
qed

text \<open>
  The first hypothesis is needed: with the simulator of \<open>toy_nd\<close>, which may answer in
  two ways, one round has two runs, with different datasets.
\<close>

lemma undetermined_simulator_runs_differ:
  "(\<lambda>(r, s). (r, rounds (inference s), posteriors s)) ` multiround_nd toy_nd () 0 7 1 0 =
     {(None, [([0, 1], [0, 1], 0)], [20]), (None, [([1, 0], [1, 0], 0)], [20])}"
  by (simp add: multiround_nd_def start_def SNPE_def round_body_nd_def then_nd_def toy_nd_def
      nd_of_def toy_sbi_def call_simulate_for_sbi_nd_def call_train_nd_def
      call_build_posterior_nd_def call_set_default_x_nd_def call_append_simulations_def
      append_simulations_def dataset_size_def)

section \<open>The accumulated dataset\<close>

lemma sum_list_take_nth:
  "k \<le> length xs \<Longrightarrow> sum_list (map f (take k xs)) = (\<Sum>i<k. f (xs ! i))"
proof (induction k)
  case 0
  then show ?case by simp
next
  case (Suc k)
  then have "take (Suc k) xs = take k xs @ [xs ! k]"
    by (simp add: take_Suc_conv_app_nth)
  with Suc show ?case by simp
qed

text \<open>
  Claim C3. In a run that completes, for every round \<open>k\<close> from 1 to \<open>num_rounds\<close>: the
  state \<open>sk\<close> after round \<open>k\<close> is the result of the loop with \<open>k\<close> rounds; the dataset of
  its inference object is the list of the (parameter batch, observation batch,
  proposal) of rounds 1 to \<open>k\<close>, as the \<^verbatim>\<open>simulate_for_sbi\<close> calls returned them, in
  order; its size is the sum of the sizes of these \<open>k\<close> batches; and the \<^verbatim>\<open>train\<close> call
  of round \<open>k\<close> ran on this inference object.
\<close>

theorem dataset_accumulates:
  assumes "multiround L simulator prior x_o num_rounds w = (None, s)"
    and "1 \<le> k" and "k \<le> nat num_rounds"
  shows "\<exists>sk. multiround L simulator prior x_o (int k) w = (None, sk) \<and>
           rounds (inference sk) = take k (simulated (calls s)) \<and>
           length (rounds (inference sk)) = k \<and>
           dataset_size (inference sk) = (\<Sum>i<k. length (fst (simulated (calls s) ! i))) \<and>
           trained_on (calls s) ! (k - 1) = inference sk"
proof -
  let ?n = "nat num_rounds"
  from assms(1) have run: "round_loop L simulator x_o ?n (start prior w) = (None, s)"
    by (simp add: multiround_def)
  from round_loop_prefix [OF run assms(3)] obtain sk where
    runk: "round_loop L simulator x_o k (start prior w) = (None, sk)" and
    rest: "round_loop L simulator x_o (?n - k) sk = (None, s)"
    by auto
  from round_loop_extends [OF rest] obtain cs where cs: "calls s = calls sk @ cs" ..
  note dk = completed_dataset [OF runk] and lk = completed_lengths [OF runk]
    and ds = completed_dataset [OF run] and ls = completed_lengths [OF run]
    and ts = completed_trained_on [OF run]
  have rk: "rounds (inference sk) = simulated (calls sk)"
    using dk by simp
  have lenk: "length (simulated (calls sk)) = k"
    using lk rk by simp
  have take: "take k (simulated (calls s)) = simulated (calls sk)"
    using lenk by (simp add: cs)
  have lens: "length (simulated (calls s)) = ?n"
    using ds ls by simp
  have 1: "rounds (inference sk) = take k (simulated (calls s))"
    using rk take by simp
  have 2: "length (rounds (inference sk)) = k"
    using lk by simp
  have "dataset_size (inference sk) =
      sum_list (map (\<lambda>r. length (fst r)) (take k (simulated (calls s))))"
    by (simp add: dataset_size_def 1 case_prod_unfold)
  also have "\<dots> = (\<Sum>i<k. length (fst (simulated (calls s) ! i)))"
    using assms(3) lens by (intro sum_list_take_nth) simp
  finally have 3: "dataset_size (inference sk) = (\<Sum>i<k. length (fst (simulated (calls s) ! i)))" .
  from assms(2) obtain j where k: "k = Suc j"
    by (cases k) simp_all
  from assms(3) have j: "j < ?n" by (simp add: k)
  have "trained_on (calls s) ! j =
      \<lparr>snpe_prior = prior, rounds = take (Suc j) (rounds (inference s))\<rparr>"
    using j by (simp add: ts [THEN conjunct1])
  also have "rounds (inference s) = simulated (calls s)"
    using ds by simp
  finally have "trained_on (calls s) ! j = \<lparr>snpe_prior = prior, rounds = rounds (inference sk)\<rparr>"
    by (simp add: 1 k)
  also have "\<dots> = inference sk"
    using lk by (cases "inference sk") simp
  finally have 4: "trained_on (calls s) ! (k - 1) = inference sk"
    by (simp add: k)
  have 0: "multiround L simulator prior x_o (int k) w = (None, sk)"
    using runk by (simp add: multiround_def)
  show ?thesis
    by (intro exI [of _ sk] conjI) (rule 0 1 2 3 4)+
qed

theorem dataset_accumulates_witness:
  "rounds (inference (snd (multiround toy_sbi () 0 7 (int 1) 0))) = [([0, 1], [0, 1], 0)] \<and>
   dataset_size (inference (snd (multiround toy_sbi () 0 7 (int 2) 0))) = 4 \<and>
   trained_on (calls (snd (multiround toy_sbi () 0 7 2 0))) ! 0 =
     inference (snd (multiround toy_sbi () 0 7 (int 1) 0))"
  using dataset_accumulates [OF toy_run_2, of 1] dataset_accumulates [OF toy_run_2, of 2]
  by (auto simp add: toy_run_2 toy_run_1 dataset_size_def)

section \<open>A call that raises\<close>

lemma raising_round_ends_loop:
  assumes "multiround L simulator prior x_o (int m) w = (None, sm)"
    and "int m < num_rounds"
    and "round_body L simulator x_o sm = (Some e, s)"
  shows "multiround L simulator prior x_o num_rounds w = (Some e, s) \<and>
         raised (last (calls s)) = Some e \<and>
         list_all (\<lambda>c. raised c = None) (butlast (calls s)) \<and>
         length (proposals_used (calls s)) = Suc m \<and>
         length (trained_on (calls s)) \<le> Suc m \<and>
         length (built (calls s)) \<le> Suc m \<and>
         length (posteriors sm) = m \<and>
         (\<not> is_SetDefaultX (last (calls s)) \<longrightarrow> posteriors s = posteriors sm) \<and>
         (is_SetDefaultX (last (calls s)) \<longrightarrow> butlast (posteriors s) = posteriors sm)"
proof -
  from assms(1) have runm: "round_loop L simulator x_o m (start prior w) = (None, sm)"
    by (simp add: multiround_def)
  from assms(2) have "m < nat num_rounds" by simp
  from round_loop_propagates [OF runm assms(3) this]
  have 1: "multiround L simulator prior x_o num_rounds w = (Some e, s)"
    by (simp add: multiround_def)
  have nr: "list_all (\<lambda>c. raised c = None) (calls sm)"
    by (rule completed_no_raise [OF runm])
  from completed_simulations [OF runm] have "length (budgets (calls sm)) = m"
    by simp
  then have lp: "length (proposals_used (calls sm)) = m"
    by (simp add: length_budgets)
  from completed_trained_on [OF runm] have lt: "length (trained_on (calls sm)) = m"
    by simp
  from completed_built [OF runm] have lb: "length (built (calls sm)) = m"
    and lpo: "length (posteriors sm) = m"
    by simp_all
  from assms(3) have 2: "raised (last (calls s)) = Some e \<and>
         list_all (\<lambda>c. raised c = None) (butlast (calls s)) \<and>
         length (proposals_used (calls s)) = Suc m \<and>
         length (trained_on (calls s)) \<le> Suc m \<and>
         length (built (calls s)) \<le> Suc m \<and>
         (\<not> is_SetDefaultX (last (calls s)) \<longrightarrow> posteriors s = posteriors sm) \<and>
         (is_SetDefaultX (last (calls s)) \<longrightarrow> butlast (posteriors s) = posteriors sm)"
    by (cases rule: round_body_raises_cases) (use nr lp lt lb in \<open>simp_all add: butlast_append\<close>)
  from 1 2 lpo show ?thesis by simp
qed

lemma simulator_raises:
  assumes "simulate_for_sbi L simulator (proposal s) 500 (world s) = (Inl e, w1)"
  shows "round_body L simulator x_o s =
    (Some e, s\<lparr>world := w1,
       calls := calls s @ [Simulate simulator (proposal s) 500 (world s) (Inl e, w1)]\<rparr>)"
  using assms by (simp add: round_body_def call_simulate_for_sbi_def)

lemma trainer_raises:
  assumes "simulate_for_sbi L simulator (proposal s) 500 (world s) = (Inr (theta, x), w1)"
    and "train L (append_simulations (inference s) theta x (proposal s)) w1 = (Inl e, w2)"
  shows "round_body L simulator x_o s =
    (Some e, s\<lparr>inference := append_simulations (inference s) theta x (proposal s),
       world := w2,
       calls := calls s @
         [Simulate simulator (proposal s) 500 (world s) (Inr (theta, x), w1),
          AppendSimulations theta x (proposal s),
          Train (append_simulations (inference s) theta x (proposal s)) w1 (Inl e, w2)]\<rparr>)"
  using assms
  by (simp add: round_body_def call_simulate_for_sbi_def call_append_simulations_def
      call_train_def)

lemma builder_raises:
  assumes "simulate_for_sbi L simulator (proposal s) 500 (world s) = (Inr (theta, x), w1)"
    and "train L (append_simulations (inference s) theta x (proposal s)) w1 = (Inr de, w2)"
    and "build_posterior L (append_simulations (inference s) theta x (proposal s)) de w2 =
      (Inl e, w3)"
  shows "round_body L simulator x_o s =
    (Some e, s\<lparr>inference := append_simulations (inference s) theta x (proposal s),
       world := w3,
       calls := calls s @
         [Simulate simulator (proposal s) 500 (world s) (Inr (theta, x), w1),
          AppendSimulations theta x (proposal s),
          Train (append_simulations (inference s) theta x (proposal s)) w1 (Inr de, w2),
          BuildPosterior (append_simulations (inference s) theta x (proposal s)) de w2
            (Inl e, w3)]\<rparr>)"
  using assms
  by (simp add: round_body_def call_simulate_for_sbi_def call_append_simulations_def
      call_train_def call_build_posterior_def)

text \<open>
  Claim C8. Rounds 1 to \<open>m\<close> have completed and left the state \<open>sm\<close>, with \<open>m\<close>
  posteriors, and in round \<open>m + 1\<close> the simulator raises \<open>e\<close>, or it returns a batch and
  the trainer raises \<open>e\<close> on the extended dataset, or both return and the posterior
  builder raises \<open>e\<close>: the hypothesis speaks of the library calls, with the arguments
  round \<open>m + 1\<close> passes them. Then the loop, whatever \<open>num_rounds > m\<close> is, ends with \<open>e\<close>:
  nothing catches it. \<open>posteriors\<close> and \<open>proposal\<close> are as rounds 1 to \<open>m\<close> left them. The
  call that raised is the last call made and the only one that raised;
  \<^verbatim>\<open>simulate_for_sbi\<close> was called once in round \<open>m + 1\<close>, \<^verbatim>\<open>train\<close> and
  \<^verbatim>\<open>build_posterior\<close> at most once: nothing was retried and no later round was entered.
\<close>

theorem exception_propagates:
  assumes "multiround L simulator prior x_o (int m) w = (None, sm)"
    and "int m < num_rounds"
    and "(\<exists>w1. simulate_for_sbi L simulator (proposal sm) 500 (world sm) = (Inl e, w1)) \<or>
         (\<exists>theta x w1 w2.
            simulate_for_sbi L simulator (proposal sm) 500 (world sm) = (Inr (theta, x), w1) \<and>
            train L (append_simulations (inference sm) theta x (proposal sm)) w1 = (Inl e, w2)) \<or>
         (\<exists>theta x w1 de w2 w3.
            simulate_for_sbi L simulator (proposal sm) 500 (world sm) = (Inr (theta, x), w1) \<and>
            train L (append_simulations (inference sm) theta x (proposal sm)) w1 = (Inr de, w2) \<and>
            build_posterior L (append_simulations (inference sm) theta x (proposal sm)) de w2 =
              (Inl e, w3))"
  shows "\<exists>s. multiround L simulator prior x_o num_rounds w = (Some e, s) \<and>
           posteriors s = posteriors sm \<and>
           length (posteriors sm) = m \<and>
           proposal s = proposal sm \<and>
           raised (last (calls s)) = Some e \<and>
           list_all (\<lambda>c. raised c = None) (butlast (calls s)) \<and>
           length (proposals_used (calls s)) = Suc m \<and>
           length (trained_on (calls s)) \<le> Suc m \<and>
           length (built (calls s)) \<le> Suc m"
proof -
  have "\<exists>s. round_body L simulator x_o sm = (Some e, s) \<and> posteriors s = posteriors sm \<and>
      proposal s = proposal sm"
    using assms(3)
  proof (elim disjE exE conjE)
    fix w1
    assume "simulate_for_sbi L simulator (proposal sm) 500 (world sm) = (Inl e, w1)"
    from simulator_raises [OF this] show ?thesis by simp
  next
    fix theta x w1 w2
    assume "simulate_for_sbi L simulator (proposal sm) 500 (world sm) = (Inr (theta, x), w1)"
      "train L (append_simulations (inference sm) theta x (proposal sm)) w1 = (Inl e, w2)"
    from trainer_raises [OF this] show ?thesis by simp
  next
    fix theta x w1 de w2 w3
    assume "simulate_for_sbi L simulator (proposal sm) 500 (world sm) = (Inr (theta, x), w1)"
      "train L (append_simulations (inference sm) theta x (proposal sm)) w1 = (Inr de, w2)"
      "build_posterior L (append_simulations (inference sm) theta x (proposal sm)) de w2 =
              (Inl e, w3)"
    from builder_raises [OF this] show ?thesis by simp
  qed
  then obtain s where b: "round_body L simulator x_o sm = (Some e, s)"
    and p: "posteriors s = posteriors sm" and q: "proposal s = proposal sm"
    by auto
  from raising_round_ends_loop [OF assms(1,2) b] p q show ?thesis
    by (intro exI [of _ s]) simp
qed

theorem exception_propagates_witness:
  "multiround toy_sbi () 0 7 5 0 =
     (Some (Exception ''diverged''), snd (multiround toy_sbi () 0 7 3 0)) \<and>
   posteriors (snd (multiround toy_sbi () 0 7 5 0)) = posteriors (snd (multiround toy_sbi () 0 7 2 0)) \<and>
   posteriors (snd (multiround toy_sbi () 0 7 5 0)) = [20, 40]"
proof -
  let ?sm = "snd (multiround toy_sbi () 0 7 2 0)"
  have m: "multiround toy_sbi () 0 7 (int 2) 0 = (None, ?sm)"
    by (simp add: toy_run_2)
  have sim: "simulate_for_sbi toy_sbi () (proposal ?sm) 500 (world ?sm) =
      (Inr ([4, 5], [51, 52]), 5)"
    unfolding toy_run_2 by (simp add: toy_sbi_def)
  have tr: "train toy_sbi (append_simulations (inference ?sm) [4, 5] [51, 52] (proposal ?sm)) 5 =
      (Inl (Exception ''diverged''), 5)"
    unfolding toy_run_2 by (simp add: toy_sbi_def append_simulations_def)
  from sim tr have "(\<exists>w1. simulate_for_sbi toy_sbi () (proposal ?sm) 500 (world ?sm) =
           (Inl (Exception ''diverged''), w1)) \<or>
         (\<exists>theta x w1 w2.
            simulate_for_sbi toy_sbi () (proposal ?sm) 500 (world ?sm) = (Inr (theta, x), w1) \<and>
            train toy_sbi (append_simulations (inference ?sm) theta x (proposal ?sm)) w1 =
              (Inl (Exception ''diverged''), w2)) \<or>
         (\<exists>theta x w1 de w2 w3.
            simulate_for_sbi toy_sbi () (proposal ?sm) 500 (world ?sm) = (Inr (theta, x), w1) \<and>
            train toy_sbi (append_simulations (inference ?sm) theta x (proposal ?sm)) w1 =
              (Inr de, w2) \<and>
            build_posterior toy_sbi (append_simulations (inference ?sm) theta x (proposal ?sm)) de w2 =
              (Inl (Exception ''diverged''), w3))"
    by blast
  from exception_propagates [OF m _ this, of 5] obtain s where
    "multiround toy_sbi () 0 7 5 0 = (Some (Exception ''diverged''), s)"
    "posteriors s = posteriors ?sm"
    by auto
  moreover have "multiround toy_sbi () 0 7 5 0 = multiround toy_sbi () 0 7 3 0"
    by (simp add: toy_defs numeral_3_eq_3 eval_nat_numeral)
  ultimately show ?thesis
    by (simp add: toy_run_2 toy_run_3)
qed

section \<open>A single round\<close>

lemma one_round_unfold:
  "multiround L simulator prior x_o 1 w =
     (case single_round_inference L simulator prior w of
        (Inl e, s1) \<Rightarrow> (Some e, s1)
      | (Inr posterior, s1) \<Rightarrow>
          (case call_set_default_x L posterior x_o (s1\<lparr>posteriors := [posterior]\<rparr>) of
             (Inl e, s2) \<Rightarrow> (Some e, s2)
           | (Inr d, s2) \<Rightarrow> (None, s2\<lparr>proposal := d\<rparr>)))"
  by (simp add: multiround_def single_round_inference_def round_body_def start_def
      call_simulate_for_sbi_def call_append_simulations_def call_train_def call_build_posterior_def
      split: prod.splits sum.splits)

text \<open>
  Claim C5. With \<open>num_rounds = 1\<close> the loop is single-round inference, followed by the
  one call \<^verbatim>\<open>posterior.set_default_x(x_o)\<close> whose result is stored in \<open>proposal\<close> and
  never sampled from. Whatever the outcome, the only proposal sampled from is the prior
  and \<^verbatim>\<open>train\<close> and \<^verbatim>\<open>build_posterior\<close> are called at most once. When the loop
  completes, single-round inference returns a posterior too, in a state with the same
  inference object; \<open>posteriors\<close> holds exactly that posterior, and there has been
  exactly one training run and one trained model.
\<close>

theorem one_round_is_single_round:
  assumes "multiround L simulator prior x_o 1 w = (r, s)"
  shows "multiround L simulator prior x_o 1 w =
           (case single_round_inference L simulator prior w of
              (Inl e, s1) \<Rightarrow> (Some e, s1)
            | (Inr posterior, s1) \<Rightarrow>
                (case call_set_default_x L posterior x_o (s1\<lparr>posteriors := [posterior]\<rparr>) of
                   (Inl e, s2) \<Rightarrow> (Some e, s2)
                 | (Inr d, s2) \<Rightarrow> (None, s2\<lparr>proposal := d\<rparr>))) \<and>
         proposals_used (calls s) = [prior] \<and>
         length (trained_on (calls s)) \<le> 1 \<and>
         length (built (calls s)) \<le> 1 \<and>
         (r = None \<longrightarrow>
            (\<exists>posterior s1. single_round_inference L simulator prior w = (Inr posterior, s1) \<and>
               posteriors s = [posterior] \<and> inference s = inference s1) \<and>
            map (\<lambda>(theta, x, d). d) (appended (calls s)) = [prior] \<and>
            length (trained_on (calls s)) = 1 \<and>
            length (estimators (calls s)) = 1 \<and>
            length (built (calls s)) = 1)"
proof -
  from assms have run: "round_loop L simulator x_o 1 (start prior w) = (r, s)"
    by (simp add: multiround_def)
  have st: "calls (start prior w :: ('a, 'b, 'c, 'd, 'e, 'f) notebook) = []"
    "proposal (start prior w :: ('a, 'b, 'c, 'd, 'e, 'f) notebook) = prior"
    by (simp_all add: start_def)
  have counts: "proposals_used (calls s) = [prior] \<and>
         length (trained_on (calls s)) \<le> 1 \<and> length (built (calls s)) \<le> 1"
  proof (cases r)
    case None
    with run have "round_body L simulator x_o (start prior w) = (None, s)"
      by (simp split: prod.splits option.splits)
    from round_body_completes [OF this] show ?thesis
      by (auto simp: st)
  next
    case (Some e)
    with run have "round_body L simulator x_o (start prior w) = (Some e, s)"
      by (simp split: prod.splits option.splits)
    then show ?thesis
      by (cases rule: round_body_raises_cases) (simp_all add: st)
  qed
  have fin: "(\<exists>posterior s1. single_round_inference L simulator prior w = (Inr posterior, s1) \<and>
               posteriors s = [posterior] \<and> inference s = inference s1) \<and>
            map (\<lambda>(theta, x, d). d) (appended (calls s)) = [prior] \<and>
            length (trained_on (calls s)) = 1 \<and>
            length (estimators (calls s)) = 1 \<and>
            length (built (calls s)) = 1" if "r = None"
  proof -
    from assms that have eq: "multiround L simulator prior x_o 1 w = (None, s)"
      by simp
    then have c: "round_loop L simulator x_o 1 (start prior w) = (None, s)"
      by (simp add: multiround_def)
    obtain q s1 where sr: "single_round_inference L simulator prior w = (q, s1)"
      by (cases "single_round_inference L simulator prior w")
    from eq [unfolded one_round_unfold] sr obtain posterior where
      q: "q = Inr posterior" and
      s: "posteriors s = [posterior] \<and> inference s = inference s1"
      by (cases q) (auto simp: call_set_default_x_def split: prod.splits sum.splits)
    from completed_dataset [OF c] completed_simulations [OF c]
    have "map (\<lambda>(theta, x, d). d) (appended (calls s)) = proposals_used (calls s)"
      by simp
    with counts have 1: "map (\<lambda>(theta, x, d). d) (appended (calls s)) = [prior]"
      by simp
    from completed_trained_on [OF c] have 2: "length (trained_on (calls s)) = 1"
      by simp
    from completed_built [OF c] have 3: "length (estimators (calls s)) = 1"
      and 4: "length (built (calls s)) = 1"
      by simp_all
    from sr q s 1 2 3 4 show ?thesis by simp
  qed
  show ?thesis
    using counts fin by (intro conjI impI one_round_unfold) simp_all
qed

theorem one_round_is_single_round_witness:
  "fst (single_round_inference toy_sbi () 0 0) = Inr 20 \<and>
   posteriors (snd (multiround toy_sbi () 0 7 1 0)) = [20] \<and>
   inference (snd (multiround toy_sbi () 0 7 1 0)) =
     inference (snd (single_round_inference toy_sbi () 0 0)) \<and>
   proposals_used (calls (snd (multiround toy_sbi () 0 7 1 0))) = [0] \<and>
   length (trained_on (calls (snd (multiround toy_sbi () 0 7 1 0)))) = 1"
proof -
  have "single_round_inference toy_sbi () 0 0 =
    (Inr 20,
     \<lparr>inference = \<lparr>snpe_prior = 0, rounds = [([0, 1], [0, 1], 0)]\<rparr>,
      posteriors = [], proposal = 0, world = 2,
      calls =
       [Simulate () 0 500 0 (Inr ([0, 1], [0, 1]), 1),
        AppendSimulations [0, 1] [0, 1] 0,
        Train \<lparr>snpe_prior = 0, rounds = [([0, 1], [0, 1], 0)]\<rparr> 1 (Inr 2, 2),
        BuildPosterior \<lparr>snpe_prior = 0, rounds = [([0, 1], [0, 1], 0)]\<rparr> 2 2 (Inr 20, 2)]\<rparr>)"
    by (simp add: single_round_inference_def start_def SNPE_def call_simulate_for_sbi_def
      call_append_simulations_def call_train_def call_build_posterior_def
      toy_sbi_def append_simulations_def dataset_size_def)
  with one_round_is_single_round [OF toy_run_1, THEN conjunct2] show ?thesis
    by (simp add: toy_run_1)
qed

end
